theory Spec2Isabelle
  imports Main "HOL-Library.Word"
begin

section \<open>The libraries the collaboration core calls\<close>

text \<open>
  The collaboration core (\<^verbatim>\<open>src/lib/collaboration/ws-server.ts\<close> and
  \<^verbatim>\<open>src/lib/collaboration/yjs-provider.ts\<close>) calls two libraries whose code is not part
  of the repository: Yjs (\<^verbatim>\<open>Y.Doc\<close>, \<^verbatim>\<open>Y.applyUpdate\<close>, \<^verbatim>\<open>Y.encodeStateAsUpdate\<close>) and
  Node's \<^verbatim>\<open>Buffer\<close> (base64).  They are a parameter of every function that calls them.
  \<^verbatim>\<open>Y.applyUpdate\<close> mutates the document in place and may throw: its result is the document
  it leaves behind, tagged with whether it returned or threw.
\<close>

type_synonym bytes = "8 word list"

datatype 'd apply_result = Applied 'd | Threw 'd

record 'd library =
  Y_Doc :: 'd
  Y_applyUpdate :: "'d \<Rightarrow> bytes \<Rightarrow> 'd apply_result"
  Y_encodeStateAsUpdate :: "'d \<Rightarrow> bytes"
  Y_updateEvent :: "'d \<Rightarrow> bytes \<Rightarrow> bytes option"
  base64_encode :: "bytes \<Rightarrow> string"
  base64_decode :: "string \<Rightarrow> bytes"

text \<open>
  A \<^verbatim>\<open>Y.Doc\<close>: its \<^verbatim>\<open>guid\<close> (a fresh random UUID unless the constructor is given one; the
  repository never gives one), its replicated content, and whether \<^verbatim>\<open>destroy()\<close> was called.
\<close>

record 'd YDoc =
  guid :: string
  content :: 'd
  destroyed :: bool

section \<open>ws-server.ts: data model\<close>

definition PRESENCE_TIMEOUT :: int where
  "PRESENCE_TIMEOUT = 5000"

datatype ready_state = OPEN | CLOSING | CLOSED

type_synonym cursor_pos = "int \<times> int"

datatype data = Str string | Bin bytes

record WSMessage =
  msg_type :: string
  msg_documentId :: string
  msg_data :: "data option"
  msg_userId :: "string option"
  msg_userName :: "string option"
  msg_userColor :: "string option"
  msg_cursor :: "cursor_pos option"

text \<open>What \<^verbatim>\<open>JSON.parse(data.toString())\<close> makes of an inbound frame.\<close>

datatype inbound = Unparseable | ParsedNull | Parsed WSMessage

record presence =
  p_userId :: string
  p_userName :: string
  p_userColor :: string
  p_cursor :: "cursor_pos option"

datatype action = Join | Leave | Awareness

text \<open>
  The JSON texts the server writes to a socket, one constructor per \<^verbatim>\<open>JSON.stringify\<close> site:
  the initial \<^verbatim>\<open>sync\<close> (its base64 data), the initial \<^verbatim>\<open>awareness\<close> (the presence list),
  a forwarded \<^verbatim>\<open>update\<close> (the received message object itself), a \<^verbatim>\<open>cursor\<close> message and a
  presence broadcast (action, participant id, presence list).
\<close>

datatype frame =
    SyncFrame string
  | AwarenessFrame "presence list"
  | UpdateFrame WSMessage
  | CursorFrame string string string string "cursor_pos option"
  | PresenceFrame action string "presence list"

datatype socket_call = Send frame | Close nat string

text \<open>
  A server-side \<^verbatim>\<open>WebSocket\<close>: its \<^verbatim>\<open>readyState\<close> and the calls the server has made on it,
  in order.  (A socket handed over by the \<^verbatim>\<open>connection\<close> event is never \<^verbatim>\<open>CONNECTING\<close>.)
\<close>

record socket =
  readyState :: ready_state
  calls :: "socket_call list"

text \<open>
  A \<^verbatim>\<open>ClientConnection\<close> is allocated only in \<^verbatim>\<open>handleConnection\<close>, one per accepted socket,
  and holds that socket in its \<^verbatim>\<open>ws\<close> field for life.  The store therefore addresses a
  \<^verbatim>\<open>ClientConnection\<close> by the handle of its socket: \<^verbatim>\<open>client.ws\<close> is the address itself.
\<close>

record ClientConnection =
  userId :: string
  userName :: string
  userColor :: string
  lastSeen :: int
  cursor :: "cursor_pos option"

text \<open>
  A \<^verbatim>\<open>DocumentRoom\<close>; \<^verbatim>\<open>clients\<close> is a JavaScript \<^verbatim>\<open>Map\<close> from participant id to
  \<^verbatim>\<open>ClientConnection\<close>, kept as an association list in insertion order (the order
  \<^verbatim>\<open>forEach\<close> visits).
\<close>

record 'd DocumentRoom =
  doc :: "'d YDoc"
  clients :: "(string \<times> nat) list"
  lastActivity :: int

datatype log_entry = console_log string | console_warn string | console_error string

text \<open>
  The \<^verbatim>\<open>CollaborationServer\<close> with the objects it shares with its closures: rooms and
  connections live in stores (\<open>room_heap\<close>, \<open>client_heap\<close>), because message handlers and
  timers keep references to them that outlive the registry entry.  \<open>listeners\<close> holds what the
  \<^verbatim>\<open>message\<close>/\<^verbatim>\<open>close\<close>/\<^verbatim>\<open>error\<close> closures of a socket captured, \<open>timeouts\<close> the pending
  \<^verbatim>\<open>setTimeout\<close> callbacks of \<^verbatim>\<open>handleDisconnection\<close> (due time, captured room).
\<close>

record 'd CollaborationServer =
  rooms :: "(string \<times> nat) list"
  clientToRoom :: "nat \<Rightarrow> string option"
  presenceCleanupInterval :: "int option"
  room_heap :: "nat \<Rightarrow> 'd DocumentRoom"
  next_room :: nat
  client_heap :: "nat \<Rightarrow> ClientConnection"
  sockets :: "nat \<Rightarrow> socket"
  listeners :: "nat \<Rightarrow> (nat \<times> string) option"
  timeouts :: "(int \<times> nat) list"
  console :: "log_entry list"

subsection \<open>JavaScript Map operations on association lists\<close>

fun Map_set :: "'k \<Rightarrow> 'v \<Rightarrow> ('k \<times> 'v) list \<Rightarrow> ('k \<times> 'v) list" where
  "Map_set k v [] = [(k, v)]"
| "Map_set k v ((k', v') # m) = (if k' = k then (k, v) # m else (k', v') # Map_set k v m)"

definition Map_delete :: "'k \<Rightarrow> ('k \<times> 'v) list \<Rightarrow> ('k \<times> 'v) list" where
  "Map_delete k m = filter (\<lambda>e. fst e \<noteq> k) m"

definition Map_get :: "('k \<times> 'v) list \<Rightarrow> 'k \<Rightarrow> 'v option" where
  "Map_get m k = map_of m k"

subsection \<open>Calls on sockets, the console, and field updates of stored objects\<close>

definition ws_send :: "nat \<Rightarrow> frame \<Rightarrow> 'd CollaborationServer \<Rightarrow> 'd CollaborationServer" where
  "ws_send w f s =
     s\<lparr>sockets := (sockets s)(w := (sockets s w)\<lparr>calls := calls (sockets s w) @ [Send f]\<rparr>)\<rparr>"

definition ws_close ::
  "nat \<Rightarrow> nat \<Rightarrow> string \<Rightarrow> 'd CollaborationServer \<Rightarrow> 'd CollaborationServer" where
  "ws_close w code reason s =
     s\<lparr>sockets := (sockets s)(w := (sockets s w)
         \<lparr>readyState := (if readyState (sockets s w) = OPEN then CLOSING
                          else readyState (sockets s w)),
          calls := calls (sockets s w) @ [Close code reason]\<rparr>)\<rparr>"

definition console_add :: "log_entry \<Rightarrow> 'd CollaborationServer \<Rightarrow> 'd CollaborationServer" where
  "console_add e s = s\<lparr>console := console s @ [e]\<rparr>"

definition room_update ::
  "nat \<Rightarrow> ('d DocumentRoom \<Rightarrow> 'd DocumentRoom) \<Rightarrow> 'd CollaborationServer \<Rightarrow> 'd CollaborationServer"
  where
  "room_update room f s = s\<lparr>room_heap := (room_heap s)(room := f (room_heap s room))\<rparr>"

definition client_update ::
  "nat \<Rightarrow> (ClientConnection \<Rightarrow> ClientConnection) \<Rightarrow> 'd CollaborationServer \<Rightarrow> 'd CollaborationServer"
  where
  "client_update client f s = s\<lparr>client_heap := (client_heap s)(client := f (client_heap s client))\<rparr>"

text \<open>
  The loop the server runs at every fan-out:
  \<^verbatim>\<open>room.clients.forEach((c, userId) => { if (<keep userId> && c.ws.readyState === OPEN) c.ws.send(frame) })\<close>.
\<close>

definition forEach_send ::
  "(string \<Rightarrow> bool) \<Rightarrow> frame \<Rightarrow> (string \<times> nat) list \<Rightarrow> 'd CollaborationServer \<Rightarrow> 'd CollaborationServer"
  where
  "forEach_send keep f cs s =
     fold (\<lambda>e s. if keep (fst e) \<and> readyState (sockets s (snd e)) = OPEN
                  then ws_send (snd e) f s else s) cs s"

section \<open>ws-server.ts: operations\<close>

text \<open>
  The constructor: no room, no connection, and the presence sweep armed with
  \<^verbatim>\<open>setInterval(..., 1000)\<close>.  Sockets are created by the \<^verbatim>\<open>ws\<close> library; each is open and
  untouched when the \<^verbatim>\<open>connection\<close> event hands it over.  Store cells not yet allocated hold
  a blank object.
\<close>

definition startCollaborationServer :: "'d library \<Rightarrow> 'd CollaborationServer" where
  "startCollaborationServer lib =
     \<lparr>rooms = [], clientToRoom = (\<lambda>_. None), presenceCleanupInterval = Some 1000,
      room_heap = (\<lambda>_. \<lparr>doc = \<lparr>guid = [], content = Y_Doc lib, destroyed = False\<rparr>,
                         clients = [], lastActivity = 0\<rparr>),
      next_room = 0,
      client_heap = (\<lambda>_. \<lparr>userId = [], userName = [], userColor = [], lastSeen = 0, cursor = None\<rparr>),
      sockets = (\<lambda>_. \<lparr>readyState = OPEN, calls = []\<rparr>),
      listeners = (\<lambda>_. None), timeouts = [], console = []\<rparr>"

text \<open>
  \<^verbatim>\<open>getOrCreateRoom\<close>.  \<open>g\<close> is the guid \<^verbatim>\<open>new Y.Doc()\<close> draws, \<open>now\<close> is \<^verbatim>\<open>Date.now()\<close>.
  The new room is registered under \<open>documentId\<close>.
\<close>

definition getOrCreateRoom ::
  "'d library \<Rightarrow> string \<Rightarrow> int \<Rightarrow> string \<Rightarrow> 'd CollaborationServer \<Rightarrow> nat \<times> 'd CollaborationServer"
  where
  "getOrCreateRoom lib g now documentId s =
     (case Map_get (rooms s) documentId of
        Some room \<Rightarrow> (room, s)
      | None \<Rightarrow>
          (let room = next_room s
           in (room,
               s\<lparr>room_heap := (room_heap s)(room :=
                     \<lparr>doc = \<lparr>guid = g, content = Y_Doc lib, destroyed = False\<rparr>,
                      clients = [], lastActivity = now\<rparr>),
                 next_room := Suc room,
                 rooms := Map_set documentId room (rooms s)\<rparr>)))"

definition getPresenceList :: "nat \<Rightarrow> 'd CollaborationServer \<Rightarrow> presence list" where
  "getPresenceList room s =
     map (\<lambda>e. \<lparr>p_userId = userId (client_heap s (snd e)),
                p_userName = userName (client_heap s (snd e)),
                p_userColor = userColor (client_heap s (snd e)),
                p_cursor = cursor (client_heap s (snd e))\<rparr>)
         (clients (room_heap s room))"

definition sendInitialSync ::
  "'d library \<Rightarrow> nat \<Rightarrow> nat \<Rightarrow> 'd CollaborationServer \<Rightarrow> 'd CollaborationServer" where
  "sendInitialSync lib ws room s =
     (let state = Y_encodeStateAsUpdate lib (content (doc (room_heap s room)));
          s1 = ws_send ws (SyncFrame (base64_encode lib state)) s
      in ws_send ws (AwarenessFrame (getPresenceList room s1)) s1)"

definition broadcastPresence ::
  "nat \<Rightarrow> string \<Rightarrow> action \<Rightarrow> 'd CollaborationServer \<Rightarrow> 'd CollaborationServer" where
  "broadcastPresence room uid act s =
     forEach_send (\<lambda>_. True) (PresenceFrame act uid (getPresenceList room s))
       (clients (room_heap s room)) s"

text \<open>
  \<^verbatim>\<open>handleConnection\<close>; \<open>color\<close> is what \<^verbatim>\<open>generateUserColor()\<close> draws.  The last update
  records what the three closures registered on the socket captured.
\<close>

definition handleConnection ::
  "'d library \<Rightarrow> string \<Rightarrow> string \<Rightarrow> int \<Rightarrow> nat \<Rightarrow> string \<Rightarrow> string
     \<Rightarrow> 'd CollaborationServer \<Rightarrow> 'd CollaborationServer" where
  "handleConnection lib g color now ws documentId uid s =
     (let (room, s1) = getOrCreateRoom lib g now documentId s;
          s2 = s1\<lparr>client_heap := (client_heap s1)(ws :=
                   \<lparr>userId = uid, userName = ''Anonymous'', userColor = color,
                    lastSeen = now, cursor = None\<rparr>)\<rparr>;
          s3 = room_update room (\<lambda>r. r\<lparr>clients := Map_set uid ws (clients r)\<rparr>) s2;
          s4 = s3\<lparr>clientToRoom := (clientToRoom s3)(ws := Some documentId)\<rparr>;
          s5 = sendInitialSync lib ws room s4;
          s6 = broadcastPresence room uid Join s5
      in s6\<lparr>listeners := (listeners s6)(ws := Some (room, uid))\<rparr>)"

text \<open>
  The \<^verbatim>\<open>connection\<close> listener of \<^verbatim>\<open>setupServer\<close>.  \<open>pathname\<close> and \<open>userIdParam\<close> are
  \<^verbatim>\<open>url.pathname\<close> and \<^verbatim>\<open>url.searchParams.get('userId')\<close> of the parsed request URL,
  \<open>generated\<close> is what \<^verbatim>\<open>generateClientId()\<close> returns.
\<close>

definition setupServer_connection ::
  "'d library \<Rightarrow> string \<Rightarrow> string \<Rightarrow> string \<Rightarrow> int \<Rightarrow> nat \<Rightarrow> string \<Rightarrow> string option
     \<Rightarrow> 'd CollaborationServer \<Rightarrow> 'd CollaborationServer" where
  "setupServer_connection lib g color generated now ws pathname userIdParam s =
     (let documentId = drop 1 pathname;
          uid = (case userIdParam of
                   None \<Rightarrow> generated
                 | Some u \<Rightarrow> if u = [] then generated else u)
      in if documentId = [] then ws_close ws 4000 ''Document ID required'' s
         else handleConnection lib g color now ws documentId uid s)"

text \<open>
  A handler either returns or throws; either way the mutations it made so far stay.
\<close>

datatype 's outcome = Returned 's | Thrown 's

definition handleUpdate ::
  "'d library \<Rightarrow> nat \<Rightarrow> nat \<Rightarrow> WSMessage \<Rightarrow> 'd CollaborationServer
     \<Rightarrow> 'd CollaborationServer outcome" where
  "handleUpdate lib room client message s =
     (case msg_data message of
        None \<Rightarrow> Returned s
      | Some (Bin b) \<Rightarrow> Returned s
      | Some (Str d) \<Rightarrow>
          if d = [] then Returned s
          else
            (case Y_applyUpdate lib (content (doc (room_heap s room))) (base64_decode lib d) of
               Threw d' \<Rightarrow> Thrown (room_update room (\<lambda>r. r\<lparr>doc := (doc r)\<lparr>content := d'\<rparr>\<rparr>) s)
             | Applied d' \<Rightarrow>
                 (let s1 = room_update room (\<lambda>r. r\<lparr>doc := (doc r)\<lparr>content := d'\<rparr>\<rparr>) s
                  in Returned
                       (forEach_send (\<lambda>u. u \<noteq> userId (client_heap s1 client))
                          (UpdateFrame message) (clients (room_heap s1 room)) s1))))"

definition truthy :: "string option \<Rightarrow> bool" where
  "truthy v = (case v of None \<Rightarrow> False | Some x \<Rightarrow> x \<noteq> [])"

definition handleAwareness ::
  "nat \<Rightarrow> nat \<Rightarrow> WSMessage \<Rightarrow> 'd CollaborationServer \<Rightarrow> 'd CollaborationServer" where
  "handleAwareness room client message s =
     (let s1 = (if truthy (msg_userName message)
                then client_update client (\<lambda>c. c\<lparr>userName := the (msg_userName message)\<rparr>) s
                else s);
          s2 = (if truthy (msg_userColor message)
                then client_update client (\<lambda>c. c\<lparr>userColor := the (msg_userColor message)\<rparr>) s1
                else s1)
      in broadcastPresence room (userId (client_heap s2 client)) Awareness s2)"

definition handleCursor ::
  "nat \<Rightarrow> nat \<Rightarrow> WSMessage \<Rightarrow> 'd CollaborationServer \<Rightarrow> 'd CollaborationServer" where
  "handleCursor room client message s =
     (let s1 = client_update client (\<lambda>c. c\<lparr>cursor := msg_cursor message\<rparr>) s;
          c = client_heap s1 client
      in forEach_send (\<lambda>u. u \<noteq> userId c)
           (CursorFrame (msg_documentId message) (userId c) (userName c) (userColor c) (cursor c))
           (clients (room_heap s1 room)) s1)"

text \<open>
  \<^verbatim>\<open>handleMessage\<close>: the whole body sits in \<^verbatim>\<open>try { ... } catch\<close>, so a throw of
  \<^verbatim>\<open>JSON.parse\<close>, of reading \<^verbatim>\<open>message.type\<close> of \<^verbatim>\<open>null\<close>, or of \<^verbatim>\<open>handleUpdate\<close> ends in
  \<^verbatim>\<open>console.error\<close>.  \<open>now\<close> is \<^verbatim>\<open>Date.now()\<close>.
\<close>

definition handleMessage ::
  "'d library \<Rightarrow> int \<Rightarrow> nat \<Rightarrow> nat \<Rightarrow> nat \<Rightarrow> inbound \<Rightarrow> 'd CollaborationServer
     \<Rightarrow> 'd CollaborationServer" where
  "handleMessage lib now ws room client frame_in s =
     (case frame_in of
        Unparseable \<Rightarrow> console_add (console_error ''Error handling message:'') s
      | ParsedNull \<Rightarrow>
          console_add (console_error ''Error handling message:'')
            (room_update room (\<lambda>r. r\<lparr>lastActivity := now\<rparr>)
               (client_update client (\<lambda>c. c\<lparr>lastSeen := now\<rparr>) s))
      | Parsed message \<Rightarrow>
          (let s1 = room_update room (\<lambda>r. r\<lparr>lastActivity := now\<rparr>)
                      (client_update client (\<lambda>c. c\<lparr>lastSeen := now\<rparr>) s)
           in if msg_type message = ''update'' then
                (case handleUpdate lib room client message s1 of
                   Returned s2 \<Rightarrow> s2
                 | Thrown s2 \<Rightarrow> console_add (console_error ''Error handling message:'') s2)
              else if msg_type message = ''awareness'' then handleAwareness room client message s1
              else if msg_type message = ''cursor'' then handleCursor room client message s1
              else console_add (console_warn (''Unknown message type: '' @ msg_type message)) s1))"

text \<open>
  \<^verbatim>\<open>handleDisconnection\<close>: when the room is left empty, a callback is set to run 60000 ms
  later; the callback holds the room.
\<close>

definition handleDisconnection ::
  "int \<Rightarrow> nat \<Rightarrow> nat \<Rightarrow> string \<Rightarrow> 'd CollaborationServer \<Rightarrow> 'd CollaborationServer" where
  "handleDisconnection now ws room uid s =
     (let s1 = room_update room (\<lambda>r. r\<lparr>clients := Map_delete uid (clients r)\<rparr>) s;
          s2 = s1\<lparr>clientToRoom := (clientToRoom s1)(ws := None)\<rparr>;
          s3 = broadcastPresence room uid Leave s2
      in if length (clients (room_heap s3 room)) = 0
         then s3\<lparr>timeouts := timeouts s3 @ [(now + 60000, room)]\<rparr>
         else s3)"

text \<open>
  The callback \<^verbatim>\<open>handleDisconnection\<close> hands to \<^verbatim>\<open>setTimeout\<close>: it looks the registry up
  under \<^verbatim>\<open>room.doc.guid\<close>.
\<close>

definition handleDisconnection_timeout ::
  "nat \<Rightarrow> 'd CollaborationServer \<Rightarrow> 'd CollaborationServer" where
  "handleDisconnection_timeout room s =
     (let key = guid (doc (room_heap s room))
      in case Map_get (rooms s) key of
           None \<Rightarrow> s
         | Some currentRoom \<Rightarrow>
             if length (clients (room_heap s currentRoom)) = 0
             then (room_update currentRoom (\<lambda>r. r\<lparr>doc := (doc r)\<lparr>destroyed := True\<rparr>\<rparr>) s)
                    \<lparr>rooms := Map_delete key (rooms s)\<rparr>
             else s)"

text \<open>
  \<^verbatim>\<open>cleanupStalePresence\<close>: the body of the inner \<^verbatim>\<open>forEach\<close>, then the two loops.  The
  inner loop deletes only the entry it is visiting, so it visits exactly the entries the room
  had when the loop began.
\<close>

definition cleanup_entry ::
  "int \<Rightarrow> nat \<Rightarrow> string \<times> nat \<Rightarrow> 'd CollaborationServer \<Rightarrow> 'd CollaborationServer" where
  "cleanup_entry now room e s =
     (if now - lastSeen (client_heap s (snd e)) > PRESENCE_TIMEOUT then
        (let s1 = ws_close (snd e) 4001 ''Connection timeout'' s;
             s2 = room_update room (\<lambda>r. r\<lparr>clients := Map_delete (fst e) (clients r)\<rparr>) s1;
             s3 = s2\<lparr>clientToRoom := (clientToRoom s2)(snd e := None)\<rparr>
         in broadcastPresence room (fst e) Leave s3)
      else s)"

definition cleanup_room :: "int \<Rightarrow> nat \<Rightarrow> 'd CollaborationServer \<Rightarrow> 'd CollaborationServer" where
  "cleanup_room now room s = fold (cleanup_entry now room) (clients (room_heap s room)) s"

definition cleanupStalePresence :: "int \<Rightarrow> 'd CollaborationServer \<Rightarrow> 'd CollaborationServer" where
  "cleanupStalePresence now s = fold (\<lambda>e. cleanup_room now (snd e)) (rooms s) s"


definition on_close :: "int \<Rightarrow> nat \<Rightarrow> 'd CollaborationServer \<Rightarrow> 'd CollaborationServer" where
  "on_close now ws s =
     (case listeners s ws of
        None \<Rightarrow> s
      | Some (room, uid) \<Rightarrow> handleDisconnection now ws room uid s)"

definition on_error :: "int \<Rightarrow> nat \<Rightarrow> 'd CollaborationServer \<Rightarrow> 'd CollaborationServer" where
  "on_error now ws s =
     (case listeners s ws of
        None \<Rightarrow> s
      | Some (room, uid) \<Rightarrow>
          handleDisconnection now ws room uid
            (console_add (console_error (''WebSocket error for user '' @ uid @ '':'')) s))"

section \<open>yjs-provider.ts\<close>

datatype ConnectionStatus = connecting | connected | disconnected

record YjsProviderConfig =
  documentId :: string
  serverUrl :: string
  cfg_userId :: string
  cfg_userName :: "string option"
  cfg_userColor :: "string option"

record CollaboratorInfo =
  ci_id :: string
  ci_name :: string
  ci_color :: string
  ci_cursor :: "cursor_pos option"

text \<open>
  The callbacks of \<^verbatim>\<open>YjsProviderEvents\<close>: all a provider can tell its caller.  A callback the
  caller did not supply is skipped by \<^verbatim>\<open>?.\<close>; the trace records the call either way.
\<close>

datatype notification =
    onStatusChange ConnectionStatus
  | onSynced bool
  | onAwarenessChange "CollaboratorInfo list"
  | onUpdate bytes

text \<open>The \<^verbatim>\<open>y-websocket\<close> provider object, by the arguments it was constructed with.\<close>

datatype WebsocketProvider = WebsocketProvider string string string

text \<open>
  A \<^verbatim>\<open>YjsDocumentProvider\<close>.  After the fields of the class come what it did to its
  surroundings: the number of \<^verbatim>\<open>update\<close> listeners it put on \<^verbatim>\<open>ydoc\<close>, the delays of its
  \<^verbatim>\<open>setTimeout\<close> calls in order (a timer's handle is its position), the handles it cleared,
  the callbacks it invoked, its console output and its calls of \<^verbatim>\<open>wsProvider.connect()\<close>.
  \<^verbatim>\<open>maxReconnectAttempts\<close> is initialised to 10 and never assigned.
\<close>

definition maxReconnectAttempts :: nat where
  "maxReconnectAttempts = 10"

record 'd YjsDocumentProvider =
  ydoc :: "'d YDoc"
  wsProvider :: "WebsocketProvider option"
  config :: YjsProviderConfig
  isConnected :: bool
  isSynced :: bool
  collaborators :: "CollaboratorInfo list"
  reconnectAttempts :: nat
  reconnectTimeout :: "nat option"
  updateListeners :: nat
  scheduled :: "int list"
  cleared :: "nat list"
  notifications :: "notification list"
  errlog :: "log_entry list"
  connect_calls :: nat

definition createYjsProvider ::
  "'d library \<Rightarrow> string \<Rightarrow> YjsProviderConfig \<Rightarrow> 'd YjsDocumentProvider" where
  "createYjsProvider lib g cfg =
     \<lparr>ydoc = \<lparr>guid = g, content = Y_Doc lib, destroyed = False\<rparr>,
      wsProvider = None, config = cfg,
      isConnected = False, isSynced = False, collaborators = [],
      reconnectAttempts = 0, reconnectTimeout = None,
      updateListeners = 0, scheduled = [], cleared = [], notifications = [], errlog = [],
      connect_calls = 0\<rparr>"

definition notify :: "notification \<Rightarrow> 'd YjsDocumentProvider \<Rightarrow> 'd YjsDocumentProvider" where
  "notify n p = p\<lparr>notifications := notifications p @ [n]\<rparr>"

text \<open>
  \<^verbatim>\<open>connect\<close>, without the awareness protocol (no claim is about it): the provider object is
  created and \<^verbatim>\<open>setupEventListeners\<close> puts one more \<^verbatim>\<open>update\<close> listener on \<^verbatim>\<open>ydoc\<close>.
\<close>

definition connect :: "'d YjsDocumentProvider \<Rightarrow> 'd YjsDocumentProvider" where
  "connect p =
     (case wsProvider p of
        Some w \<Rightarrow> p
      | None \<Rightarrow>
          (notify (onStatusChange connecting) p)
            \<lparr>wsProvider := Some (WebsocketProvider (serverUrl (config p)) (documentId (config p))
                                   (cfg_userId (config p))),
             updateListeners := Suc (updateListeners p)\<rparr>)"

definition handleDisconnect :: "'d YjsDocumentProvider \<Rightarrow> 'd YjsDocumentProvider" where
  "handleDisconnect p =
     (if reconnectAttempts p \<ge> maxReconnectAttempts then
        p\<lparr>errlog := errlog p @ [console_error ''Max reconnection attempts reached'']\<rparr>
      else
        (let delay = min (1000 * 2 ^ reconnectAttempts p) 30000
         in p\<lparr>reconnectAttempts := reconnectAttempts p + 1,
              reconnectTimeout := Some (length (scheduled p)),
              scheduled := scheduled p @ [delay]\<rparr>))"

text \<open>The callback \<^verbatim>\<open>handleDisconnect\<close> hands to \<^verbatim>\<open>setTimeout\<close>.\<close>

definition handleDisconnect_timeout :: "'d YjsDocumentProvider \<Rightarrow> 'd YjsDocumentProvider" where
  "handleDisconnect_timeout p =
     (if wsProvider p \<noteq> None \<and> \<not> isConnected p
      then p\<lparr>connect_calls := Suc (connect_calls p)\<rparr> else p)"

text \<open>The \<^verbatim>\<open>status\<close> and \<^verbatim>\<open>sync\<close> listeners of \<^verbatim>\<open>setupEventListeners\<close>.\<close>

definition on_status :: "ConnectionStatus \<Rightarrow> 'd YjsDocumentProvider \<Rightarrow> 'd YjsDocumentProvider" where
  "on_status status p =
     (let p1 = p\<lparr>isConnected := (status = connected)\<rparr>;
          p2 = notify (onStatusChange status) p1
      in if status = connected then p2\<lparr>reconnectAttempts := 0\<rparr>
         else if status = disconnected then handleDisconnect p2
         else p2)"

definition on_sync :: "bool \<Rightarrow> 'd YjsDocumentProvider \<Rightarrow> 'd YjsDocumentProvider" where
  "on_sync synced p = notify (onSynced synced) (p\<lparr>isSynced := synced\<rparr>)"

text \<open>
  \<^verbatim>\<open>Y.applyUpdate(this.ydoc, bytes)\<close> as the provider sees it: the document is left as the
  library leaves it, each \<^verbatim>\<open>update\<close> listener passes an emitted update event on to
  \<^verbatim>\<open>onUpdate\<close>, and a throw reaches the caller.
\<close>

definition Y_applyUpdate_ydoc ::
  "'d library \<Rightarrow> bytes \<Rightarrow> 'd YjsDocumentProvider \<Rightarrow> 'd YjsDocumentProvider outcome" where
  "Y_applyUpdate_ydoc lib b p =
     (let before = content (ydoc p);
          heard = (case Y_updateEvent lib before b of
                     None \<Rightarrow> []
                   | Some u \<Rightarrow> replicate (updateListeners p) (onUpdate u))
      in case Y_applyUpdate lib before b of
           Applied d \<Rightarrow>
             Returned (p\<lparr>ydoc := (ydoc p)\<lparr>content := d\<rparr>,
                         notifications := notifications p @ heard\<rparr>)
         | Threw d \<Rightarrow>
             Thrown (p\<lparr>ydoc := (ydoc p)\<lparr>content := d\<rparr>,
                       notifications := notifications p @ heard\<rparr>))"

definition getEncodedState :: "'d library \<Rightarrow> 'd YjsDocumentProvider \<Rightarrow> bytes" where
  "getEncodedState lib p = Y_encodeStateAsUpdate lib (content (ydoc p))"

definition applyUpdate ::
  "'d library \<Rightarrow> bytes \<Rightarrow> 'd YjsDocumentProvider \<Rightarrow> 'd YjsDocumentProvider outcome" where
  "applyUpdate lib update p = Y_applyUpdate_ydoc lib update p"

definition loadInitialState ::
  "'d library \<Rightarrow> bytes \<Rightarrow> 'd YjsDocumentProvider \<Rightarrow> 'd YjsDocumentProvider outcome" where
  "loadInitialState lib state p = Y_applyUpdate_ydoc lib state p"

definition disconnect :: "'d YjsDocumentProvider \<Rightarrow> 'd YjsDocumentProvider" where
  "disconnect p =
     (let p1 = (case reconnectTimeout p of
                  None \<Rightarrow> p
                | Some h \<Rightarrow> p\<lparr>cleared := cleared p @ [h], reconnectTimeout := None\<rparr>)
      in p1\<lparr>wsProvider := None, isConnected := False, isSynced := False, collaborators := []\<rparr>)"

text \<open>
  \<^verbatim>\<open>mergeYjsStates\<close>: both states go into a fresh document, first \<open>state1\<close>; a throw of
  either \<^verbatim>\<open>Y.applyUpdate\<close> leaves the function (\<open>None\<close>).
\<close>

definition mergeYjsStates :: "'d library \<Rightarrow> bytes \<Rightarrow> bytes \<Rightarrow> bytes option" where
  "mergeYjsStates lib state1 state2 =
     (case Y_applyUpdate lib (Y_Doc lib) state1 of
        Threw d \<Rightarrow> None
      | Applied d1 \<Rightarrow>
          (case Y_applyUpdate lib d1 state2 of
             Threw d \<Rightarrow> None
           | Applied d2 \<Rightarrow> Some (Y_encodeStateAsUpdate lib d2)))"

text \<open>The comparison loop of \<^verbatim>\<open>areStatesEqual\<close>: lengths first, then index by index.\<close>

definition snapshots_equal :: "bytes \<Rightarrow> bytes \<Rightarrow> bool" where
  "snapshots_equal snapshot1 snapshot2 =
     (if length snapshot1 \<noteq> length snapshot2 then False
      else list_all (\<lambda>i. snapshot1 ! i = snapshot2 ! i) [0..<length snapshot1])"

definition areStatesEqual :: "'d library \<Rightarrow> bytes \<Rightarrow> bytes \<Rightarrow> bool option" where
  "areStatesEqual lib state1 state2 =
     (case Y_applyUpdate lib (Y_Doc lib) state1 of
        Threw d \<Rightarrow> None
      | Applied d1 \<Rightarrow>
          (case Y_applyUpdate lib (Y_Doc lib) state2 of
             Threw d \<Rightarrow> None
           | Applied d2 \<Rightarrow>
               Some (snapshots_equal (Y_encodeStateAsUpdate lib d1)
                                     (Y_encodeStateAsUpdate lib d2))))"

text \<open>
  \<^verbatim>\<open>Y.applyUpdate\<close> run over a sequence of updates; \<open>None\<close> when one of them throws.
\<close>

fun apply_all :: "'d library \<Rightarrow> 'd \<Rightarrow> bytes list \<Rightarrow> 'd option" where
  "apply_all lib d [] = Some d"
| "apply_all lib d (u # us) =
     (case Y_applyUpdate lib d u of Threw d' \<Rightarrow> None | Applied d' \<Rightarrow> apply_all lib d' us)"

text \<open>
  Modelled from the spec: the merge law of Yjs (\<^verbatim>\<open>Y.applyUpdate\<close>), whose code is not in the
  repository.  The spec (sections 2 and 4.2) requires of the mergeable state that ``merge must
  be commutative and idempotent: applying the same bytes twice or in a different order than a
  concurrent peer yields the same resulting state''.
\<close>

definition merge_commutative_idempotent :: "'d library \<Rightarrow> bool" where
  "merge_commutative_idempotent lib \<longleftrightarrow>
     (\<forall>d a b. apply_all lib d [a, b] = apply_all lib d [b, a]) \<and>
     (\<forall>d a. apply_all lib d [a, a] = apply_all lib d [a])"

section \<open>A small library instance and sample states\<close>

text \<open>
  A grow-only set of bytes kept as a sorted list: merging is union, an update that is empty
  or starts with a zero byte is rejected, and the update event fires when the update brings
  something new.  It serves to run the definitions on concrete inputs.
\<close>

definition gset_lib :: "bytes library" where
  "gset_lib =
     \<lparr>Y_Doc = [],
      Y_applyUpdate = (\<lambda>d u. if u = [] \<or> hd u = 0 then Threw d
                              else Applied (sort (remdups (d @ u)))),
      Y_encodeStateAsUpdate = (\<lambda>d. d),
      Y_updateEvent = (\<lambda>d u. if set u \<subseteq> set d then None else Some u),
      base64_encode = map (\<lambda>b. if b = 0 then CHR ''A'' else CHR ''B''),
      base64_decode = map (\<lambda>c. if c = CHR ''A'' then 0 else 1)\<rparr>"

text \<open>The state a handler leaves behind, whether it returned or threw.\<close>

fun state_of :: "'s outcome \<Rightarrow> 's" where
  "state_of (Returned s) = s"
| "state_of (Thrown s) = s"

text \<open>
  Sample runs of the server: alice connects to \<^verbatim>\<open>/doc1\<close> on socket 0 at time 10, then bob on
  socket 1 at time 20.
\<close>

definition alice :: presence where
  "alice = \<lparr>p_userId = ''alice'', p_userName = ''Anonymous'', p_userColor = ''#FF6B6B'',
             p_cursor = None\<rparr>"

definition bob :: presence where
  "bob = \<lparr>p_userId = ''bob'', p_userName = ''Anonymous'', p_userColor = ''#4ECDC4'',
           p_cursor = None\<rparr>"

definition alice_joined :: "bytes CollaborationServer" where
  "alice_joined = handleConnection gset_lib ''g-1'' ''#FF6B6B'' 10 0 ''doc1'' ''alice''
                    (startCollaborationServer gset_lib)"

definition both_joined :: "bytes CollaborationServer" where
  "both_joined = handleConnection gset_lib ''g-2'' ''#4ECDC4'' 20 1 ''doc1'' ''bob'' alice_joined"

definition msg_update :: "string \<Rightarrow> WSMessage" where
  "msg_update d = \<lparr>msg_type = ''update'', msg_documentId = ''doc1'', msg_data = Some (Str d),
                    msg_userId = None, msg_userName = None, msg_userColor = None,
                    msg_cursor = None\<rparr>"

text \<open>
  Alice's socket closes at time 1000, and the callback \<^verbatim>\<open>handleDisconnection\<close> set then runs
  (60000 ms later).
\<close>

definition alice_left :: "bytes CollaborationServer" where
  "alice_left = handleDisconnection 1000 0 0 ''alice'' alice_joined"

definition grace_expired :: "bytes CollaborationServer" where
  "grace_expired = handleDisconnection_timeout 0 alice_left"



text \<open>
  A library whose merge fails part-way: it integrates an update up to its first zero byte and
  throws there, leaving behind what it integrated.
\<close>

definition integrating_lib :: "bytes library" where
  "integrating_lib =
     gset_lib\<lparr>Y_applyUpdate := (\<lambda>d u.
        if u = [] then Threw d
        else if 0 \<in> set u then Threw (sort (remdups (d @ takeWhile (\<lambda>b. b \<noteq> 0) u)))
        else Applied (sort (remdups (d @ u))))\<rparr>"

text \<open>The document a call of \<^verbatim>\<open>Y.applyUpdate\<close> leaves behind, and whether a call returned.\<close>

fun doc_left :: "'d apply_result \<Rightarrow> 'd" where
  "doc_left (Applied d) = d"
| "doc_left (Threw d) = d"

fun has_applied :: "'d apply_result \<Rightarrow> bool" where
  "has_applied (Applied d) = True"
| "has_applied (Threw d) = False"

fun has_returned :: "'s outcome \<Rightarrow> bool" where
  "has_returned (Returned s) = True"
| "has_returned (Thrown s) = False"

text \<open>Sample providers: a new one, and one whose attempt counter stands at the ceiling.\<close>

definition cfg0 :: YjsProviderConfig where
  "cfg0 = \<lparr>documentId = ''doc1'', serverUrl = ''ws://localhost:1234'', cfg_userId = ''alice'',
            cfg_userName = None, cfg_userColor = None\<rparr>"

definition fresh_provider :: "bytes YjsDocumentProvider" where
  "fresh_provider = createYjsProvider gset_lib ''g-9'' cfg0"

definition exhausted_provider :: "bytes YjsDocumentProvider" where
  "exhausted_provider = fresh_provider\<lparr>reconnectAttempts := 10\<rparr>"

section \<open>Notions for stating the presence sweep\<close>

text \<open>
  For the presence sweep: the test \<^verbatim>\<open>now - client.lastSeen > PRESENCE_TIMEOUT\<close>; the calls made
  on a socket between two states, and that the log of every socket only grew between them.
\<close>

definition stale :: "int \<Rightarrow> 'd CollaborationServer \<Rightarrow> nat \<Rightarrow> bool" where
  "stale now s client \<longleftrightarrow> now - lastSeen (client_heap s client) > PRESENCE_TIMEOUT"

definition calls_since :: "'d CollaborationServer \<Rightarrow> 'd CollaborationServer \<Rightarrow> nat \<Rightarrow> socket_call list" where
  "calls_since s s' w = drop (length (calls (sockets s w))) (calls (sockets s' w))"

definition extends :: "'d CollaborationServer \<Rightarrow> 'd CollaborationServer \<Rightarrow> bool" where
  "extends s s' \<longleftrightarrow> (\<forall>w. calls (sockets s' w) = calls (sockets s w) @ calls_since s s' w)"

text \<open>
  The state in which \<^verbatim>\<open>cleanupStalePresence\<close> broadcasts the leave of a stale entry: socket
  closed, entry deleted from the room, socket deleted from \<^verbatim>\<open>clientToRoom\<close>.
\<close>

definition evicted :: "nat \<Rightarrow> string \<times> nat \<Rightarrow> 'd CollaborationServer \<Rightarrow> 'd CollaborationServer" where
  "evicted room e s =
     (room_update room (\<lambda>r. r\<lparr>clients := Map_delete (fst e) (clients r)\<rparr>)
        (ws_close (snd e) 4001 ''Connection timeout'' s))
     \<lparr>clientToRoom := (clientToRoom s)(snd e := None)\<rparr>"

text \<open>The keys of the stale entries of a list of entries.\<close>

definition stale_keys :: "int \<Rightarrow> 'd CollaborationServer \<Rightarrow> (string \<times> nat) list \<Rightarrow> string set" where
  "stale_keys now s xs = fst ` {e \<in> set xs. stale now s (snd e)}"

text \<open>The outer loop of \<^verbatim>\<open>cleanupStalePresence\<close> over a list of registry entries.\<close>

definition cleanup_rooms ::
  "int \<Rightarrow> (string \<times> nat) list \<Rightarrow> 'd CollaborationServer \<Rightarrow> 'd CollaborationServer" where
  "cleanup_rooms now rs s = fold (\<lambda>e. cleanup_room now (snd e)) rs s"

section \<open>The fan-out loop\<close>

text \<open>
  The loop changes nothing but the call logs of sockets; a socket's log grows by one copy of
  the frame for each entry of the map that holds it under a kept key, if the socket is open.
\<close>

lemma ws_send_only_sockets: "ws_send w f s = s\<lparr>sockets := sockets (ws_send w f s)\<rparr>"
  by (simp add: ws_send_def)

lemma forEach_send_only_sockets:
  "forEach_send keep f cs s = s\<lparr>sockets := sockets (forEach_send keep f cs s)\<rparr>"
proof (induction cs arbitrary: s)
  case Nil
  show ?case by (simp add: forEach_send_def)
next
  case (Cons e cs)
  let ?s1 = "if keep (fst e) \<and> readyState (sockets s (snd e)) = OPEN then ws_send (snd e) f s else s"
  have step: "forEach_send keep f (e # cs) s = forEach_send keep f cs ?s1"
    by (simp add: forEach_send_def)
  have "?s1 = s\<lparr>sockets := sockets ?s1\<rparr>"
    by (simp add: ws_send_def)
  then obtain k where k: "?s1 = s\<lparr>sockets := k\<rparr>" ..
  have "forEach_send keep f cs ?s1 = ?s1\<lparr>sockets := sockets (forEach_send keep f cs ?s1)\<rparr>"
    by (rule Cons.IH)
  also have "\<dots> = s\<lparr>sockets := sockets (forEach_send keep f cs ?s1)\<rparr>"
    by (subst k) simp
  finally show ?case by (simp only: step)
qed

lemma forEach_send_readyState:
  "readyState (sockets (forEach_send keep f cs s) w) = readyState (sockets s w)"
proof (induction cs arbitrary: s)
  case Nil
  show ?case by (simp add: forEach_send_def)
next
  case (Cons e cs)
  have "forEach_send keep f (e # cs) s =
        forEach_send keep f cs
          (if keep (fst e) \<and> readyState (sockets s (snd e)) = OPEN then ws_send (snd e) f s else s)"
    by (simp add: forEach_send_def)
  then show ?case
    by (simp add: Cons.IH ws_send_def)
qed

lemma forEach_send_calls:
  "calls (sockets (forEach_send keep f cs s) w) =
     calls (sockets s w) @
       (if readyState (sockets s w) = OPEN
        then replicate (length (filter (\<lambda>e. snd e = w \<and> keep (fst e)) cs)) (Send f) else [])"
proof (induction cs arbitrary: s)
  case Nil
  show ?case by (simp add: forEach_send_def)
next
  case (Cons e cs)
  have "forEach_send keep f (e # cs) s =
        forEach_send keep f cs
          (if keep (fst e) \<and> readyState (sockets s (snd e)) = OPEN then ws_send (snd e) f s else s)"
    by (simp add: forEach_send_def)
  then show ?case
    by (simp add: Cons.IH ws_send_def replicate_append_same)
qed

section \<open>The sample runs, evaluated\<close>

lemmas server_defs = handleConnection_def startCollaborationServer_def getOrCreateRoom_def
        Map_get_def room_update_def sendInitialSync_def ws_send_def broadcastPresence_def
        forEach_send_def getPresenceList_def gset_lib_def Let_def

lemma alice_joined_eq:
  "alice_joined =
     \<lparr>rooms = [(''doc1'', 0)],
      clientToRoom = (\<lambda>_. None)(0 := Some ''doc1''),
      presenceCleanupInterval = Some 1000,
      room_heap = (\<lambda>_. \<lparr>doc = \<lparr>guid = [], content = [], destroyed = False\<rparr>,
                         clients = [], lastActivity = 0\<rparr>)
                  (0 := \<lparr>doc = \<lparr>guid = ''g-1'', content = [], destroyed = False\<rparr>,
                         clients = [(''alice'', 0)], lastActivity = 10\<rparr>),
      next_room = 1,
      client_heap = (\<lambda>_. \<lparr>userId = [], userName = [], userColor = [], lastSeen = 0, cursor = None\<rparr>)
                  (0 := \<lparr>userId = ''alice'', userName = ''Anonymous'', userColor = ''#FF6B6B'',
                         lastSeen = 10, cursor = None\<rparr>),
      sockets = (\<lambda>_. \<lparr>readyState = OPEN, calls = []\<rparr>)
                  (0 := \<lparr>readyState = OPEN,
                         calls = [Send (SyncFrame []), Send (AwarenessFrame [alice]),
                                  Send (PresenceFrame Join ''alice'' [alice])]\<rparr>),
      listeners = (\<lambda>_. None)(0 := Some (0, ''alice'')),
      timeouts = [], console = []\<rparr>"
  by (simp add: alice_joined_def alice_def server_defs)

lemma both_joined_eq:
  "both_joined =
     \<lparr>rooms = [(''doc1'', 0)],
      clientToRoom = (\<lambda>_. None)(0 := Some ''doc1'', 1 := Some ''doc1''),
      presenceCleanupInterval = Some 1000,
      room_heap = (\<lambda>_. \<lparr>doc = \<lparr>guid = [], content = [], destroyed = False\<rparr>,
                         clients = [], lastActivity = 0\<rparr>)
                  (0 := \<lparr>doc = \<lparr>guid = ''g-1'', content = [], destroyed = False\<rparr>,
                         clients = [(''alice'', 0), (''bob'', 1)], lastActivity = 10\<rparr>),
      next_room = 1,
      client_heap = (\<lambda>_. \<lparr>userId = [], userName = [], userColor = [], lastSeen = 0, cursor = None\<rparr>)
                  (0 := \<lparr>userId = ''alice'', userName = ''Anonymous'', userColor = ''#FF6B6B'',
                         lastSeen = 10, cursor = None\<rparr>,
                   1 := \<lparr>userId = ''bob'', userName = ''Anonymous'', userColor = ''#4ECDC4'',
                         lastSeen = 20, cursor = None\<rparr>),
      sockets = (\<lambda>_. \<lparr>readyState = OPEN, calls = []\<rparr>)
                  (0 := \<lparr>readyState = OPEN,
                         calls = [Send (SyncFrame []), Send (AwarenessFrame [alice]),
                                  Send (PresenceFrame Join ''alice'' [alice]),
                                  Send (PresenceFrame Join ''bob'' [alice, bob])]\<rparr>,
                   1 := \<lparr>readyState = OPEN,
                         calls = [Send (SyncFrame []), Send (AwarenessFrame [alice, bob]),
                                  Send (PresenceFrame Join ''bob'' [alice, bob])]\<rparr>),
      listeners = (\<lambda>_. None)(0 := Some (0, ''alice''), 1 := Some (0, ''bob'')),
      timeouts = [], console = []\<rparr>"
  by (simp add: both_joined_def alice_joined_eq alice_def bob_def server_defs)

lemma both_joined_room:
  "clients (room_heap both_joined 0) = [(''alice'', 0), (''bob'', 1)]"
  "content (doc (room_heap both_joined 0)) = []"
  "userId (client_heap both_joined 0) = ''alice''"
  "readyState (sockets both_joined 0) = OPEN"
  "readyState (sockets both_joined (Suc 0)) = OPEN"
  "console both_joined = []"
  by (simp_all add: both_joined_eq)



section \<open>Handshake\<close>

text \<open>
  Claim C8.  When the path of the request URL gives an empty document identifier (the path is
  \<^verbatim>\<open>/\<close> or empty), the \<^verbatim>\<open>connection\<close> listener calls \<^verbatim>\<open>close(4000, 'Document ID required')\<close>
  on the socket and does nothing else: every other socket, the registry, the room
  store (so no room is created), the connection store, \<^verbatim>\<open>clientToRoom\<close> and the registered
  listeners are as before (so no connection is registered for the socket).
\<close>

theorem handshake_without_document_id_refused:
  assumes "drop 1 pathname = []"
  shows "let s' = setupServer_connection lib g color generated now ws pathname userIdParam s
         in calls (sockets s' ws) = calls (sockets s ws) @ [Close 4000 ''Document ID required'']
          \<and> sockets s' = (sockets s)(ws := sockets s' ws)
          \<and> rooms s' = rooms s
          \<and> room_heap s' = room_heap s
          \<and> next_room s' = next_room s
          \<and> client_heap s' = client_heap s
          \<and> clientToRoom s' = clientToRoom s
          \<and> listeners s' = listeners s
          \<and> timeouts s' = timeouts s"
  using assms by (simp add: setupServer_connection_def Let_def ws_close_def)

theorem handshake_without_document_id_refused_witness:
  "drop 1 ''/'' = [] \<and>
   calls (sockets (setupServer_connection gset_lib ''g'' ''#FF6B6B'' ''client_1'' 5 7 ''/'' None
                    (startCollaborationServer gset_lib)) 7) = [Close 4000 ''Document ID required''] \<and>
   rooms (setupServer_connection gset_lib ''g'' ''#FF6B6B'' ''client_1'' 5 7 ''/'' None
                    (startCollaborationServer gset_lib)) = []"
  using handshake_without_document_id_refused
          [of "''/''" gset_lib "''g''" "''#FF6B6B''" "''client_1''" 5 7 None
              "startCollaborationServer gset_lib"]
  by (simp add: startCollaborationServer_def Let_def)

section \<open>Update messages\<close>

lemma handleUpdate_throws:
  assumes "msg_data m = Some (Str d)" "d \<noteq> []"
    and "Y_applyUpdate lib (content (doc (room_heap s room))) (base64_decode lib d) = Threw d'"
  shows "handleUpdate lib room client m s
         = Thrown (room_update room (\<lambda>r. r\<lparr>doc := (doc r)\<lparr>content := d'\<rparr>\<rparr>) s)"
  using assms by (simp add: handleUpdate_def)

lemma handleMessage_update_throws:
  assumes "msg_type m = ''update''" "msg_data m = Some (Str d)" "d \<noteq> []"
    and "Y_applyUpdate lib (content (doc (room_heap s room))) (base64_decode lib d) = Threw d'"
  shows "handleMessage lib now ws room client (Parsed m) s
         = console_add (console_error ''Error handling message:'')
             (room_update room (\<lambda>r. r\<lparr>doc := (doc r)\<lparr>content := d'\<rparr>\<rparr>)
               (room_update room (\<lambda>r. r\<lparr>lastActivity := now\<rparr>)
                 (client_update client (\<lambda>c. c\<lparr>lastSeen := now\<rparr>) s)))"
proof -
  let ?s1 = "room_update room (\<lambda>r. r\<lparr>lastActivity := now\<rparr>)
               (client_update client (\<lambda>c. c\<lparr>lastSeen := now\<rparr>) s)"
  have "content (doc (room_heap ?s1 room)) = content (doc (room_heap s room))"
    by (simp add: room_update_def client_update_def)
  with assms(4) have "Y_applyUpdate lib (content (doc (room_heap ?s1 room))) (base64_decode lib d) = Threw d'"
    by simp
  from handleUpdate_throws [OF assms(2,3) this]
  show ?thesis using assms(1) by (simp add: handleMessage_def Let_def)
qed

text \<open>
  Claim C3, as amended.  When \<^verbatim>\<open>Y.applyUpdate\<close> throws on the bytes of an \<^verbatim>\<open>update\<close> message,
  \<^verbatim>\<open>handleMessage\<close> catches the throw and logs it: no call is made on any socket (nothing is
  forwarded, and no socket, the sender's included, is closed), the room's document is the one
  the failed library call left behind (the server rolls nothing back and changes nothing
  more: guid and destroyed flag are as before), the room's client map, every other room, the
  registry, the listeners and the timers are as before, and the console gains exactly the one
  error entry.
\<close>

theorem failed_merge_is_logged_and_dropped:
  assumes "msg_type m = ''update''" "msg_data m = Some (Str d)" "d \<noteq> []"
    and "Y_applyUpdate lib (content (doc (room_heap s room))) (base64_decode lib d) = Threw d'"
  shows "let s' = handleMessage lib now ws room client (Parsed m) s
         in sockets s' = sockets s
          \<and> doc (room_heap s' room) = (doc (room_heap s room))\<lparr>content := d'\<rparr>
          \<and> clients (room_heap s' room) = clients (room_heap s room)
          \<and> room_heap s' = (room_heap s)(room := room_heap s' room)
          \<and> rooms s' = rooms s
          \<and> clientToRoom s' = clientToRoom s
          \<and> listeners s' = listeners s
          \<and> timeouts s' = timeouts s
          \<and> console s' = console s @ [console_error ''Error handling message:'']"
  by (simp add: handleMessage_update_throws [OF assms] Let_def console_add_def room_update_def
        client_update_def)

theorem failed_merge_is_logged_and_dropped_witness:
  "msg_type (msg_update ''AB'') = ''update'' \<and> msg_data (msg_update ''AB'') = Some (Str ''AB'')
   \<and> ''AB'' \<noteq> []
   \<and> Y_applyUpdate gset_lib (content (doc (room_heap both_joined 0))) (base64_decode gset_lib ''AB'')
       = Threw []
   \<and> calls (sockets (handleMessage gset_lib 30 0 0 0 (Parsed (msg_update ''AB'')) both_joined) 1)
       = calls (sockets both_joined 1)
   \<and> readyState (sockets (handleMessage gset_lib 30 0 0 0 (Parsed (msg_update ''AB'')) both_joined) 0)
       = OPEN
   \<and> content (doc (room_heap (handleMessage gset_lib 30 0 0 0 (Parsed (msg_update ''AB'')) both_joined) 0))
       = []
   \<and> console (handleMessage gset_lib 30 0 0 0 (Parsed (msg_update ''AB'')) both_joined)
       = [console_error ''Error handling message:'']"
proof -
  have h1: "msg_type (msg_update ''AB'') = ''update''"
    and h2: "msg_data (msg_update ''AB'') = Some (Str ''AB'')"
    and h3: "''AB'' \<noteq> []"
    by (simp_all add: msg_update_def)
  have h4: "Y_applyUpdate gset_lib (content (doc (room_heap both_joined 0))) (base64_decode gset_lib ''AB'')
       = Threw []"
    by (simp add: both_joined_room gset_lib_def)
  from failed_merge_is_logged_and_dropped [OF h1 h2 h3 h4, of 30 0 0] h1 h2 h3 h4
  show ?thesis by (simp add: Let_def both_joined_room)
qed

text \<open>
  Claim C3 as stated fails in its clause that the room's state is unchanged.  With a merge
  that fails part-way (the bytes 1, 0: the 1 is integrated, the throw comes at the 0), the
  throw is caught and logged, and the room's document, empty before, holds 1 afterwards.
\<close>

theorem failed_merge_can_change_the_document:
  "msg_type (msg_update ''BA'') = ''update'' \<and> msg_data (msg_update ''BA'') = Some (Str ''BA'')
   \<and> content (doc (room_heap both_joined 0)) = []
   \<and> Y_applyUpdate integrating_lib (content (doc (room_heap both_joined 0)))
         (base64_decode integrating_lib ''BA'') = Threw [1]
   \<and> content (doc (room_heap
         (handleMessage integrating_lib 30 0 0 0 (Parsed (msg_update ''BA'')) both_joined) 0)) = [1]
   \<and> console (handleMessage integrating_lib 30 0 0 0 (Parsed (msg_update ''BA'')) both_joined)
       = [console_error ''Error handling message:'']"
proof -
  have h1: "msg_type (msg_update ''BA'') = ''update''"
    and h2: "msg_data (msg_update ''BA'') = Some (Str ''BA'')"
    and h3: "''BA'' \<noteq> []"
    by (simp_all add: msg_update_def)
  have h4: "Y_applyUpdate integrating_lib (content (doc (room_heap both_joined 0)))
         (base64_decode integrating_lib ''BA'') = Threw [1]"
    by (simp add: both_joined_room integrating_lib_def gset_lib_def)
  show ?thesis
    using h1 h2 h4
    by (simp add: handleMessage_update_throws [OF h1 h2 h3 h4] console_add_def room_update_def
          client_update_def both_joined_room)
qed





section \<open>Reconnection of the client provider\<close>

lemma backoff_delay_value:
  "reconnectAttempts p < maxReconnectAttempts \<Longrightarrow>
   handleDisconnect p = p\<lparr>reconnectAttempts := reconnectAttempts p + 1,
              reconnectTimeout := Some (length (scheduled p)),
              scheduled := scheduled p @ [min (1000 * 2 ^ reconnectAttempts p) 30000]\<rparr>"
  by (simp add: handleDisconnect_def Let_def)

lemma backoff_stops:
  "maxReconnectAttempts \<le> reconnectAttempts p \<Longrightarrow>
   handleDisconnect p = p\<lparr>errlog := errlog p @ [console_error ''Max reconnection attempts reached'']\<rparr>"
  by (simp add: handleDisconnect_def)

text \<open>
  Claim C4.  With the attempt counter at \<open>n - 1\<close> for \<open>1 \<le> n \<le> 10\<close>, the \<open>n\<close>-th
  \<^verbatim>\<open>handleDisconnect\<close> (called directly or through a \<^verbatim>\<open>disconnected\<close> status event) sets one
  timer, of \<open>min (1000 * 2 ^ (n - 1)) 30000\<close> ms, and moves the counter to \<open>n\<close>; with the
  counter at 10 or more it sets no timer and leaves counter and timer handle alone; a
  \<^verbatim>\<open>connected\<close> status event resets the counter to zero.
\<close>

theorem reconnect_backoff_schedule:
  fixes p q r :: "'d YjsDocumentProvider"
  assumes "1 \<le> n" "n \<le> 10" "reconnectAttempts p = n - 1"
  shows "scheduled (handleDisconnect p) = scheduled p @ [min (1000 * 2 ^ (n - 1)) 30000]
       \<and> reconnectAttempts (handleDisconnect p) = n
       \<and> scheduled (on_status disconnected p) = scheduled p @ [min (1000 * 2 ^ (n - 1)) 30000]
       \<and> (10 \<le> reconnectAttempts q \<longrightarrow>
            scheduled (handleDisconnect q) = scheduled q
          \<and> reconnectTimeout (handleDisconnect q) = reconnectTimeout q
          \<and> reconnectAttempts (handleDisconnect q) = reconnectAttempts q
          \<and> scheduled (on_status disconnected q) = scheduled q)
       \<and> reconnectAttempts (on_status connected r) = 0"
proof -
  from assms have lt: "reconnectAttempts p < maxReconnectAttempts"
    by (simp add: maxReconnectAttempts_def)
  have n: "reconnectAttempts p + 1 = n" using assms by simp
  let ?p2 = "notify (onStatusChange disconnected) (p\<lparr>isConnected := False\<rparr>)"
  have lt2: "reconnectAttempts ?p2 < maxReconnectAttempts" using lt by (simp add: notify_def)
  have a: "scheduled (handleDisconnect p) = scheduled p @ [min (1000 * 2 ^ (n - 1)) 30000]"
    using assms(3) by (simp add: backoff_delay_value [OF lt])
  have b: "reconnectAttempts (handleDisconnect p) = n"
    using n by (simp add: backoff_delay_value [OF lt])
  have c: "scheduled (on_status disconnected p) = scheduled p @ [min (1000 * 2 ^ (n - 1)) 30000]"
    using assms(3) by (simp add: on_status_def Let_def backoff_delay_value [OF lt2]) (simp add: notify_def)
  have d: "10 \<le> reconnectAttempts q \<longrightarrow>
            scheduled (handleDisconnect q) = scheduled q
          \<and> reconnectTimeout (handleDisconnect q) = reconnectTimeout q
          \<and> reconnectAttempts (handleDisconnect q) = reconnectAttempts q
          \<and> scheduled (on_status disconnected q) = scheduled q"
    by (simp add: on_status_def Let_def handleDisconnect_def maxReconnectAttempts_def notify_def)
  have e: "reconnectAttempts (on_status connected r) = 0"
    by (simp add: on_status_def Let_def)
  from a b c d e show ?thesis by blast
qed

theorem reconnect_backoff_schedule_witness:
  "(1::nat) \<le> 3 \<and> (3::nat) \<le> 10 \<and> reconnectAttempts (fresh_provider\<lparr>reconnectAttempts := 2\<rparr>) = 3 - 1
   \<and> scheduled (handleDisconnect (fresh_provider\<lparr>reconnectAttempts := 2\<rparr>)) = [4000]
   \<and> 10 \<le> reconnectAttempts exhausted_provider
   \<and> scheduled (handleDisconnect exhausted_provider) = []
   \<and> reconnectAttempts (on_status connected exhausted_provider) = 0"
  using reconnect_backoff_schedule
          [of 3 "fresh_provider\<lparr>reconnectAttempts := 2\<rparr>" exhausted_provider exhausted_provider]
  by (simp add: fresh_provider_def exhausted_provider_def createYjsProvider_def)

text \<open>
  Claim C7 as stated fails: at the ceiling \<^verbatim>\<open>handleDisconnect\<close> invokes no callback of the
  caller at all; it writes to the console.  What the caller hears of the \<^verbatim>\<open>disconnected\<close>
  event is the same \<^verbatim>\<open>onStatusChange\<close> call it hears from a new provider's first disconnect.
\<close>

theorem exhaustion_not_reported_to_caller:
  "reconnectAttempts exhausted_provider = maxReconnectAttempts
   \<and> notifications (handleDisconnect exhausted_provider) = []
   \<and> errlog (handleDisconnect exhausted_provider)
       = [console_error ''Max reconnection attempts reached'']
   \<and> notifications (on_status disconnected exhausted_provider) = [onStatusChange disconnected]
   \<and> notifications (on_status disconnected fresh_provider) = [onStatusChange disconnected]"
  by (simp add: exhausted_provider_def fresh_provider_def createYjsProvider_def handleDisconnect_def
        maxReconnectAttempts_def on_status_def notify_def Let_def)

text \<open>
  Claim C7, as amended.  Once the attempt counter has reached the ceiling,
  \<^verbatim>\<open>handleDisconnect\<close> only adds the console error ``Max reconnection attempts reached'': no
  timer is set, no callback is invoked, and every field of the provider is as before.  A
  \<^verbatim>\<open>disconnected\<close> status event then leaves the provider disconnected, having told the caller
  the status change and nothing more.
\<close>

theorem exhaustion_stops_retrying_and_logs:
  assumes "maxReconnectAttempts \<le> reconnectAttempts p"
  shows "handleDisconnect p
           = p\<lparr>errlog := errlog p @ [console_error ''Max reconnection attempts reached'']\<rparr>
       \<and> on_status disconnected p
           = p\<lparr>isConnected := False,
               notifications := notifications p @ [onStatusChange disconnected],
               errlog := errlog p @ [console_error ''Max reconnection attempts reached'']\<rparr>"
  using assms by (simp add: handleDisconnect_def on_status_def notify_def Let_def)

theorem exhaustion_stops_retrying_and_logs_witness:
  "maxReconnectAttempts \<le> reconnectAttempts exhausted_provider
   \<and> scheduled (handleDisconnect exhausted_provider) = []
   \<and> scheduled (on_status disconnected exhausted_provider) = []
   \<and> reconnectTimeout (on_status disconnected exhausted_provider) = None"
  using exhaustion_stops_retrying_and_logs [of exhausted_provider]
  by (simp add: exhausted_provider_def fresh_provider_def createYjsProvider_def
        maxReconnectAttempts_def)

section \<open>State import and merge of the client provider\<close>

text \<open>
  Claim C10.  \<^verbatim>\<open>applyUpdate\<close> and \<^verbatim>\<open>loadInitialState\<close> are the same function of the bytes
  and the provider.  Each returns exactly when \<^verbatim>\<open>Y.applyUpdate\<close> on the content of \<^verbatim>\<open>ydoc\<close>
  and the bytes returns (and throws when it throws); afterwards the content of \<^verbatim>\<open>ydoc\<close> is
  the document that call left behind, the caller has received the \<^verbatim>\<open>onUpdate\<close> calls of the
  document's listeners for the update event of that call, and every other field of the
  provider is as before.
\<close>

theorem applyUpdate_loadInitialState_same:
  "applyUpdate lib b p = loadInitialState lib b p
   \<and> has_returned (applyUpdate lib b p) = has_applied (Y_applyUpdate lib (content (ydoc p)) b)
   \<and> state_of (applyUpdate lib b p)
       = p\<lparr>ydoc := (ydoc p)\<lparr>content := doc_left (Y_applyUpdate lib (content (ydoc p)) b)\<rparr>,
           notifications := notifications p @
             (case Y_updateEvent lib (content (ydoc p)) b of
                None \<Rightarrow> []
              | Some u \<Rightarrow> replicate (updateListeners p) (onUpdate u))\<rparr>
   \<and> has_returned (loadInitialState lib b p) = has_applied (Y_applyUpdate lib (content (ydoc p)) b)
   \<and> state_of (loadInitialState lib b p)
       = p\<lparr>ydoc := (ydoc p)\<lparr>content := doc_left (Y_applyUpdate lib (content (ydoc p)) b)\<rparr>,
           notifications := notifications p @
             (case Y_updateEvent lib (content (ydoc p)) b of
                None \<Rightarrow> []
              | Some u \<Rightarrow> replicate (updateListeners p) (onUpdate u))\<rparr>"
  by (simp add: applyUpdate_def loadInitialState_def Y_applyUpdate_ydoc_def Let_def
        split: apply_result.split)

theorem applyUpdate_loadInitialState_sample:
  "state_of (applyUpdate gset_lib [2, 1] fresh_provider)
     = fresh_provider\<lparr>ydoc := (ydoc fresh_provider)\<lparr>content := [1, 2]\<rparr>\<rparr>
   \<and> state_of (loadInitialState gset_lib [2, 1] fresh_provider)
     = fresh_provider\<lparr>ydoc := (ydoc fresh_provider)\<lparr>content := [1, 2]\<rparr>\<rparr>
   \<and> has_returned (applyUpdate gset_lib [2, 1] fresh_provider)
   \<and> has_returned (loadInitialState gset_lib [2, 1] fresh_provider)"
proof -
  have a: "Y_applyUpdate gset_lib [] [2, 1] = Applied [1, 2]"
    by code_simp
  have c: "content (ydoc fresh_provider) = []" "updateListeners fresh_provider = 0"
    "notifications fresh_provider = []"
    by (simp_all add: fresh_provider_def createYjsProvider_def gset_lib_def)
  from applyUpdate_loadInitialState_same [of gset_lib "[2, 1]" fresh_provider]
  show ?thesis by (simp add: a c split: option.split)
qed

lemma mergeYjsStates_apply_all:
  "mergeYjsStates lib a b = map_option (Y_encodeStateAsUpdate lib) (apply_all lib (Y_Doc lib) [a, b])"
  by (simp add: mergeYjsStates_def split: apply_result.split)

text \<open>
  Claim C9.  With a merge that is commutative and idempotent, as the spec requires of the
  mergeable state, \<^verbatim>\<open>mergeYjsStates\<close> gives the same result for \<open>(s1, s2)\<close> and \<open>(s2, s1)\<close>:
  both calls throw, or both return the same bytes.
\<close>

theorem mergeYjsStates_commutes:
  assumes "merge_commutative_idempotent lib"
  shows "mergeYjsStates lib s1 s2 = mergeYjsStates lib s2 s1"
proof -
  from assms have "apply_all lib (Y_Doc lib) [s1, s2] = apply_all lib (Y_Doc lib) [s2, s1]"
    unfolding merge_commutative_idempotent_def by blast
  then show ?thesis by (simp only: mergeYjsStates_apply_all)
qed

lemma sort_remdups_eq:
  fixes xs ys :: "'a::linorder list"
  shows "set xs = set ys \<Longrightarrow> sort (remdups xs) = sort (remdups ys)"
  by (rule sorted_distinct_set_unique) simp_all

lemma gset_lib_merge: "merge_commutative_idempotent gset_lib"
proof -
  have c: "sort (remdups (sort (remdups (d @ a)) @ b)) = sort (remdups (sort (remdups (d @ b)) @ a))"
    for d a b :: bytes
    by (rule sort_remdups_eq) auto
  have i: "sort (remdups (sort (remdups (d @ a)) @ a)) = sort (remdups (d @ a))"
    for d a :: bytes
    by (rule sort_remdups_eq) auto
  show ?thesis
    unfolding merge_commutative_idempotent_def
    by (simp add: gset_lib_def c i)
qed

theorem mergeYjsStates_commutes_witness:
  "merge_commutative_idempotent gset_lib
   \<and> mergeYjsStates gset_lib [1] [2] = mergeYjsStates gset_lib [2] [1]
   \<and> mergeYjsStates gset_lib [2] [1] = Some [1, 2]"
proof -
  have "mergeYjsStates gset_lib [2] [1] = Some [1, 2]"
    by code_simp
  with gset_lib_merge mergeYjsStates_commutes [OF gset_lib_merge, of "[1]" "[2]"]
  show ?thesis by simp
qed

section \<open>Joining and leaving a room\<close>

text \<open>
  Whatever the state, a client that connects on an open socket is itself sent the \<^verbatim>\<open>join\<close>
  presence update.
\<close>

lemma Map_set_member: "(k, v) \<in> set (Map_set k v m)"
  by (induction m) auto

lemma sendInitialSync_only_sockets:
  "sendInitialSync lib ws room s = s\<lparr>sockets := sockets (sendInitialSync lib ws room s)\<rparr>"
  by (simp add: sendInitialSync_def Let_def ws_send_def)

lemma sendInitialSync_readyState:
  "readyState (sockets (sendInitialSync lib ws room s) w) = readyState (sockets s w)"
  by (simp add: sendInitialSync_def Let_def ws_send_def)

lemma broadcastPresence_to_member:
  assumes "(u, w) \<in> set (clients (room_heap s room))" "readyState (sockets s w) = OPEN"
  shows "Send (PresenceFrame act uid (getPresenceList room s))
           \<in> set (calls (sockets (broadcastPresence room uid act s) w))"
proof -
  from assms(1) have "(u, w) \<in> set (filter (\<lambda>e. snd e = w \<and> True) (clients (room_heap s room)))"
    by simp
  then have "0 < length (filter (\<lambda>e. snd e = w \<and> True) (clients (room_heap s room)))"
    by (rule length_pos_if_in_set)
  then show ?thesis
    using assms(2) unfolding broadcastPresence_def by (simp add: forEach_send_calls)
qed

lemma handleConnection_join_reaches_joiner:
  assumes "readyState (sockets s ws) = OPEN"
  shows "\<exists>pl. Send (PresenceFrame Join uid pl)
           \<in> set (calls (sockets (handleConnection lib g color now ws docId uid s) ws))"
proof -
  obtain room s1 where g: "getOrCreateRoom lib g now docId s = (room, s1)"
    by (cases "getOrCreateRoom lib g now docId s")
  have sk1: "sockets s1 = sockets s"
    using g by (auto simp add: getOrCreateRoom_def Let_def split: option.splits)
  define s4 where "s4 = (room_update room (\<lambda>r. r\<lparr>clients := Map_set uid ws (clients r)\<rparr>)
      (s1\<lparr>client_heap := (client_heap s1)(ws :=
           \<lparr>userId = uid, userName = ''Anonymous'', userColor = color,
            lastSeen = now, cursor = None\<rparr>)\<rparr>))\<lparr>clientToRoom := (clientToRoom s1)(ws := Some docId)\<rparr>"
  define s5 where "s5 = sendInitialSync lib ws room s4"
  have m4: "(uid, ws) \<in> set (clients (room_heap s4 room))"
    by (simp add: s4_def room_update_def Map_set_member)
  have "room_heap s5 = room_heap s4"
    unfolding s5_def by (subst sendInitialSync_only_sockets) simp
  with m4 have m5: "(uid, ws) \<in> set (clients (room_heap s5 room))" by simp
  have o5: "readyState (sockets s5 ws) = OPEN"
    using assms by (simp add: s5_def sendInitialSync_readyState s4_def room_update_def sk1)
  have eq: "handleConnection lib g color now ws docId uid s
        = (broadcastPresence room uid Join s5)
            \<lparr>listeners := (listeners (broadcastPresence room uid Join s5))(ws := Some (room, uid))\<rparr>"
    by (simp add: handleConnection_def g Let_def s5_def s4_def room_update_def)
  from broadcastPresence_to_member [OF m5 o5, of Join uid] show ?thesis
    unfolding eq by auto
qed

text \<open>
  Claim C6 (the code departs from it).  Alice is the first to connect: her socket is sent the
  \<^verbatim>\<open>sync\<close> message, then the \<^verbatim>\<open>awareness\<close> message with the presence list, and then the
  \<^verbatim>\<open>join\<close> presence update for herself, although she is the newly joined client.  The same
  happens to bob on socket 1 when he connects second.  (\<^verbatim>\<open>handleConnection\<close> puts the new
  client in the map before \<^verbatim>\<open>broadcastPresence\<close> runs over the map, and \<^verbatim>\<open>broadcastPresence\<close>
  skips nobody.)
\<close>

theorem join_broadcast_reaches_the_joiner:
  "calls (sockets (startCollaborationServer gset_lib) 0) = []
   \<and> calls (sockets alice_joined 0)
       = [Send (SyncFrame []), Send (AwarenessFrame [alice]),
          Send (PresenceFrame Join ''alice'' [alice])]
   \<and> calls (sockets alice_joined 1) = []
   \<and> calls (sockets both_joined 1)
       = [Send (SyncFrame []), Send (AwarenessFrame [alice, bob]),
          Send (PresenceFrame Join ''bob'' [alice, bob])]"
  by (simp add: alice_joined_eq both_joined_eq startCollaborationServer_def)

lemma alice_left_eq:
  "alice_left = alice_joined
     \<lparr>clientToRoom := (\<lambda>_. None),
      room_heap := (room_heap alice_joined)
                  (0 := \<lparr>doc = \<lparr>guid = ''g-1'', content = [], destroyed = False\<rparr>,
                         clients = [], lastActivity = 10\<rparr>),
      timeouts := [(61000, 0)]\<rparr>"
  by (simp add: alice_left_def handleDisconnection_def alice_joined_eq room_update_def
        Map_delete_def broadcastPresence_def forEach_send_def getPresenceList_def Let_def)

text \<open>
  Whenever the guid of the room's document is not a key of the registry, the callback does
  nothing.
\<close>

lemma timeout_lookup_misses:
  "Map_get (rooms s) (guid (doc (room_heap s room))) = None \<Longrightarrow>
   handleDisconnection_timeout room s = s"
  by (simp add: handleDisconnection_timeout_def Let_def)

text \<open>
  Claim C1 (the code departs from it).  Alice, alone in the room of \<^verbatim>\<open>doc1\<close>, disconnects at
  time 1000: the room is empty and one callback is set for time 61000.  Nobody joins.  When
  the callback runs it looks the registry up under the guid of the room's document,
  \<^verbatim>\<open>g-1\<close>, finds nothing there (the room is registered under \<^verbatim>\<open>doc1\<close>), and returns: the
  room is still registered, its document is not destroyed, the state is what it was.
\<close>

theorem empty_room_is_never_released:
  "rooms alice_joined = [(''doc1'', 0)]
   \<and> clients (room_heap alice_left 0) = []
   \<and> timeouts alice_left = [(1000 + 60000, 0)]
   \<and> guid (doc (room_heap alice_left 0)) = ''g-1''
   \<and> rooms grace_expired = [(''doc1'', 0)]
   \<and> destroyed (doc (room_heap grace_expired 0)) = False
   \<and> grace_expired = alice_left"
  by (simp add: grace_expired_def handleDisconnection_timeout_def alice_left_eq alice_joined_eq
        Map_get_def Let_def)

section \<open>The presence sweep\<close>

subsection \<open>Call logs between two states\<close>

lemma extendsI:
  assumes "\<And>w. \<exists>ys. calls (sockets s' w) = calls (sockets s w) @ ys"
  shows "extends s s'"
  unfolding extends_def calls_since_def
proof
  fix w
  from assms obtain ys where "calls (sockets s' w) = calls (sockets s w) @ ys" by blast
  then show "calls (sockets s' w) = calls (sockets s w) @ drop (length (calls (sockets s w))) (calls (sockets s' w))"
    by simp
qed

lemma calls_since_append:
  "calls (sockets s' w) = calls (sockets s w) @ ys \<Longrightarrow> calls_since s s' w = ys"
  by (simp add: calls_since_def)

lemma extends_refl: "extends s s"
  by (rule extendsI) simp

lemma calls_since_refl: "calls_since s s w = []"
  by (simp add: calls_since_def)

lemma extends_trans:
  assumes "extends s s1" "extends s1 s2"
  shows "extends s s2" and "calls_since s s2 w = calls_since s s1 w @ calls_since s1 s2 w"
proof -
  have eq: "calls (sockets s2 w) = calls (sockets s w) @ (calls_since s s1 w @ calls_since s1 s2 w)" for w
    using assms unfolding extends_def by (metis append.assoc)
  show "extends s s2"
    by (rule extendsI) (use eq in blast)
  show "calls_since s s2 w = calls_since s s1 w @ calls_since s1 s2 w"
    by (rule calls_since_append) (rule eq)
qed

subsection \<open>One entry\<close>

lemma broadcastPresence_only_sockets:
  "broadcastPresence room uid act s = s\<lparr>sockets := sockets (broadcastPresence room uid act s)\<rparr>"
  unfolding broadcastPresence_def by (rule forEach_send_only_sockets)

lemma broadcastPresence_readyState:
  "readyState (sockets (broadcastPresence room uid act s) w) = readyState (sockets s w)"
  unfolding broadcastPresence_def by (rule forEach_send_readyState)

lemma broadcastPresence_calls:
  "calls (sockets (broadcastPresence room uid act s) w) =
     calls (sockets s w) @
       (if readyState (sockets s w) = OPEN
        then replicate (length (filter (\<lambda>e. snd e = w) (clients (room_heap s room))))
               (Send (PresenceFrame act uid (getPresenceList room s)))
        else [])"
  unfolding broadcastPresence_def by (simp add: forEach_send_calls)

lemma cleanup_entry_fresh:
  "\<not> stale now s (snd e) \<Longrightarrow> cleanup_entry now room e s = s"
  by (simp add: cleanup_entry_def stale_def)

lemma cleanup_entry_stale:
  "stale now s (snd e) \<Longrightarrow>
   cleanup_entry now room e s = broadcastPresence room (fst e) Leave (evicted room e s)"
  by (simp add: cleanup_entry_def stale_def evicted_def Let_def room_update_def ws_close_def)

lemma cleanup_entry_frame:
  "client_heap (cleanup_entry now room e s) = client_heap s"
  "rooms (cleanup_entry now room e s) = rooms s"
proof -
  have "client_heap (cleanup_entry now room e s) = client_heap s \<and> rooms (cleanup_entry now room e s) = rooms s"
  proof (cases "stale now s (snd e)")
    case True
    show ?thesis
      unfolding cleanup_entry_stale [OF True]
      by (subst (1 2) broadcastPresence_only_sockets)
         (simp add: evicted_def room_update_def ws_close_def)
  next
    case False
    then show ?thesis by (simp add: cleanup_entry_fresh)
  qed
  then show "client_heap (cleanup_entry now room e s) = client_heap s"
    and "rooms (cleanup_entry now room e s) = rooms s" by simp_all
qed

lemma cleanup_entry_stale_same [simp]:
  "stale now (cleanup_entry now' room e s) w = stale now s w"
  by (simp add: stale_def cleanup_entry_frame)

lemma cleanup_entry_room_heap:
  "room_heap (cleanup_entry now room e s) =
     (if stale now s (snd e)
      then (room_heap s)(room := (room_heap s room)
             \<lparr>clients := Map_delete (fst e) (clients (room_heap s room))\<rparr>)
      else room_heap s)"
proof (cases "stale now s (snd e)")
  case True
  show ?thesis
    unfolding cleanup_entry_stale [OF True]
    by (subst broadcastPresence_only_sockets)
       (simp add: True evicted_def room_update_def ws_close_def)
next
  case False
  then show ?thesis by (simp add: cleanup_entry_fresh)
qed

lemma cleanup_entry_clientToRoom:
  "clientToRoom (cleanup_entry now room e s) =
     (if stale now s (snd e) then (clientToRoom s)(snd e := None) else clientToRoom s)"
proof (cases "stale now s (snd e)")
  case True
  show ?thesis
    unfolding cleanup_entry_stale [OF True]
    by (subst broadcastPresence_only_sockets)
       (simp add: True evicted_def room_update_def ws_close_def)
next
  case False
  then show ?thesis by (simp add: cleanup_entry_fresh)
qed

lemma cleanup_entry_readyState:
  "readyState (sockets (cleanup_entry now room e s) w) =
     (if stale now s (snd e) \<and> w = snd e \<and> readyState (sockets s w) = OPEN then CLOSING
      else readyState (sockets s w))"
proof (cases "stale now s (snd e)")
  case True
  show ?thesis
    unfolding cleanup_entry_stale [OF True]
    by (simp add: broadcastPresence_readyState True evicted_def room_update_def ws_close_def)
next
  case False
  then show ?thesis by (simp add: cleanup_entry_fresh)
qed

lemma cleanup_entry_calls:
  "calls (sockets (cleanup_entry now room e s) w) =
     calls (sockets s w) @
       (if stale now s (snd e) then
          (if w = snd e then [Close 4001 ''Connection timeout'']
           else if readyState (sockets s w) = OPEN then
             replicate (length (filter (\<lambda>e'. snd e' = w)
                                  (Map_delete (fst e) (clients (room_heap s room)))))
               (Send (PresenceFrame Leave (fst e) (getPresenceList room (evicted room e s))))
           else [])
        else [])"
proof (cases "stale now s (snd e)")
  case True
  show ?thesis
    unfolding cleanup_entry_stale [OF True]
    by (simp add: broadcastPresence_calls True)
       (simp add: evicted_def room_update_def ws_close_def)
next
  case False
  then show ?thesis by (simp add: cleanup_entry_fresh)
qed

lemma cleanup_entry_extends: "extends s (cleanup_entry now room e s)"
  by (rule extendsI) (simp add: cleanup_entry_calls)

lemma cleanup_entry_calls_since:
  "calls_since s (cleanup_entry now room e s) w =
       (if stale now s (snd e) then
          (if w = snd e then [Close 4001 ''Connection timeout'']
           else if readyState (sockets s w) = OPEN then
             replicate (length (filter (\<lambda>e'. snd e' = w)
                                  (Map_delete (fst e) (clients (room_heap s room)))))
               (Send (PresenceFrame Leave (fst e) (getPresenceList room (evicted room e s))))
           else [])
        else [])"
  by (rule calls_since_append) (rule cleanup_entry_calls)

lemma cleanup_entry_Close_iff:
  "Close code reason \<in> set (calls_since s (cleanup_entry now room e s) w) \<longleftrightarrow>
     stale now s (snd e) \<and> w = snd e \<and> code = 4001 \<and> reason = ''Connection timeout''"
  by (auto simp add: cleanup_entry_calls_since)

lemma cleanup_entry_leave:
  assumes "stale now s (snd e)" "e' \<in> set (clients (room_heap s room))" "fst e' \<noteq> fst e"
    and "snd e' \<noteq> snd e" "readyState (sockets s (snd e')) = OPEN"
  shows "Send (PresenceFrame Leave (fst e) (getPresenceList room (evicted room e s)))
           \<in> set (calls_since s (cleanup_entry now room e s) (snd e'))"
proof -
  have "e' \<in> set (filter (\<lambda>x. snd x = snd e') (Map_delete (fst e) (clients (room_heap s room))))"
    using assms(2,3) by (simp add: Map_delete_def)
  then have "0 < length (filter (\<lambda>x. snd x = snd e') (Map_delete (fst e) (clients (room_heap s room))))"
    by (rule length_pos_if_in_set)
  then show ?thesis
    using assms(1,4,5) by (simp add: cleanup_entry_calls_since)
qed

subsection \<open>The inner loop\<close>

lemma entries_frame:
  "client_heap (fold (cleanup_entry now room) xs s) = client_heap s"
  "rooms (fold (cleanup_entry now room) xs s) = rooms s"
  by (induction xs arbitrary: s) (simp_all add: cleanup_entry_frame)

lemma entries_stale_same [simp]:
  "stale now (fold (cleanup_entry now' room) xs s) w = stale now s w"
  by (simp add: stale_def entries_frame)

lemma stale_keys_Cons:
  "stale_keys now s (x # xs) =
     (if stale now s (snd x) then insert (fst x) (stale_keys now s xs) else stale_keys now s xs)"
  by (auto simp add: stale_keys_def)

lemma stale_keys_Nil [simp]: "stale_keys now s [] = {}"
  by (simp add: stale_keys_def)

lemma stale_keys_state:
  "client_heap s' = client_heap s \<Longrightarrow> stale_keys now s' xs = stale_keys now s xs"
  by (simp add: stale_keys_def stale_def)

lemma entries_room_heap:
  "room_heap (fold (cleanup_entry now room) xs s) =
     (room_heap s)(room := (room_heap s room)
        \<lparr>clients := filter (\<lambda>e. fst e \<notin> stale_keys now s xs) (clients (room_heap s room))\<rparr>)"
proof (induction xs arbitrary: s)
  case Nil
  show ?case by simp
next
  case (Cons x xs)
  let ?s1 = "cleanup_entry now room x s"
  have k: "stale_keys now ?s1 xs = stale_keys now s xs"
    by (rule stale_keys_state) (rule cleanup_entry_frame)
  show ?case
  proof (cases "stale now s (snd x)")
    case True
    have "filter (\<lambda>e. fst e \<notin> stale_keys now s xs) (Map_delete (fst x) cs)
          = filter (\<lambda>e. fst e \<notin> insert (fst x) (stale_keys now s xs)) cs" for cs :: "(string \<times> nat) list"
      by (induction cs) (auto simp add: Map_delete_def)
    then show ?thesis
      by (simp add: Cons.IH k cleanup_entry_room_heap True stale_keys_Cons fun_eq_iff)
  next
    case False
    then show ?thesis
      by (simp add: Cons.IH k cleanup_entry_room_heap stale_keys_Cons)
  qed
qed

lemma entries_extends: "extends s (fold (cleanup_entry now room) xs s)"
proof (induction xs arbitrary: s)
  case Nil
  show ?case by (simp add: extends_refl)
next
  case (Cons x xs)
  show ?case
    using extends_trans(1) [OF cleanup_entry_extends Cons.IH] by simp
qed

lemma entries_calls_since_Cons:
  "calls_since s (fold (cleanup_entry now room) (x # xs) s) w =
     calls_since s (cleanup_entry now room x s) w @
     calls_since (cleanup_entry now room x s) (fold (cleanup_entry now room) xs (cleanup_entry now room x s)) w"
  using extends_trans(2) [OF cleanup_entry_extends entries_extends] by simp

lemma entries_Close_only_stale:
  "Close code reason \<in> set (calls_since s (fold (cleanup_entry now room) xs s) w) \<Longrightarrow> stale now s w"
proof (induction xs arbitrary: s)
  case Nil
  then show ?case by (simp add: calls_since_refl)
next
  case (Cons x xs)
  from Cons.prems show ?case
    unfolding entries_calls_since_Cons
    using Cons.IH [of "cleanup_entry now room x s"]
    by (auto simp add: cleanup_entry_Close_iff)
qed

lemma entries_Close_each_stale:
  "e \<in> set xs \<Longrightarrow> stale now s (snd e) \<Longrightarrow>
   Close 4001 ''Connection timeout'' \<in> set (calls_since s (fold (cleanup_entry now room) xs s) (snd e))"
proof (induction xs arbitrary: s)
  case Nil
  then show ?case by simp
next
  case (Cons x xs)
  show ?case
  proof (cases "e = x")
    case True
    with Cons.prems show ?thesis
      unfolding entries_calls_since_Cons by (simp add: cleanup_entry_Close_iff)
  next
    case False
    with Cons.prems have "e \<in> set xs" by simp
    moreover have "stale now (cleanup_entry now room x s) (snd e)"
      using Cons.prems by simp
    ultimately show ?thesis
      unfolding entries_calls_since_Cons using Cons.IH by simp
  qed
qed

lemma entries_readyState:
  "\<not> stale now s w \<Longrightarrow>
   readyState (sockets (fold (cleanup_entry now room) xs s) w) = readyState (sockets s w)"
proof (induction xs arbitrary: s)
  case Nil
  show ?case by simp
next
  case (Cons x xs)
  have "\<not> stale now (cleanup_entry now room x s) w" using Cons.prems by simp
  from Cons.IH [OF this] Cons.prems show ?case
    by (auto simp add: cleanup_entry_readyState)
qed

lemma entries_clientToRoom:
  "clientToRoom (fold (cleanup_entry now room) xs s) w =
     (if w \<in> snd ` {e \<in> set xs. stale now s (snd e)} then None else clientToRoom s w)"
proof (induction xs arbitrary: s)
  case Nil
  show ?case by simp
next
  case (Cons x xs)
  show ?case
    by (simp add: Cons.IH cleanup_entry_clientToRoom) auto
qed

lemma entries_leave:
  assumes "e \<in> set xs" "stale now s (snd e)"
    and "e' \<in> set (clients (room_heap s room))" "fst e' \<notin> stale_keys now s xs"
    and "\<not> stale now s (snd e')" "readyState (sockets s (snd e')) = OPEN"
  shows "\<exists>pl. Send (PresenceFrame Leave (fst e) pl)
           \<in> set (calls_since s (fold (cleanup_entry now room) xs s) (snd e'))"
  using assms
proof (induction xs arbitrary: s)
  case Nil
  then show ?case by simp
next
  case (Cons x xs)
  let ?s1 = "cleanup_entry now room x s"
  show ?case
  proof (cases "e = x")
    case True
    have "fst e' \<noteq> fst e"
      using Cons.prems(2,4) True by (auto simp add: stale_keys_Cons)
    moreover have "snd e' \<noteq> snd e"
      using Cons.prems(2,5) by auto
    ultimately have "Send (PresenceFrame Leave (fst e) (getPresenceList room (evicted room e s)))
           \<in> set (calls_since s (cleanup_entry now room e s) (snd e'))"
      using Cons.prems(2,3,6) by (intro cleanup_entry_leave)
    then show ?thesis
      unfolding entries_calls_since_Cons using True by auto
  next
    case False
    with Cons.prems(1) have 1: "e \<in> set xs" by simp
    have 2: "stale now ?s1 (snd e)" using Cons.prems(2) by simp
    have k: "stale_keys now ?s1 xs = stale_keys now s xs"
      by (rule stale_keys_state) (rule cleanup_entry_frame)
    have 4: "fst e' \<notin> stale_keys now ?s1 xs"
      using Cons.prems(4) by (auto simp add: k stale_keys_Cons split: if_splits)
    have 3: "e' \<in> set (clients (room_heap ?s1 room))"
      using Cons.prems(3,4)
      by (auto simp add: cleanup_entry_room_heap Map_delete_def stale_keys_Cons split: if_splits)
    have 5: "\<not> stale now ?s1 (snd e')" using Cons.prems(5) by simp
    have 6: "readyState (sockets ?s1 (snd e')) = OPEN"
      using Cons.prems(5,6) by (auto simp add: cleanup_entry_readyState)
    from Cons.IH [OF 1 2 3 4 5 6] show ?thesis
      unfolding entries_calls_since_Cons by auto
  qed
qed

subsection \<open>One room\<close>

lemma distinct_keys_stale:
  assumes "distinct (map fst cs)" "e \<in> set cs"
  shows "fst e \<in> stale_keys now s cs \<longleftrightarrow> stale now s (snd e)"
proof
  assume "fst e \<in> stale_keys now s cs"
  then obtain e0 where e0: "e0 \<in> set cs" "stale now s (snd e0)" "fst e0 = fst e"
    by (auto simp add: stale_keys_def)
  from assms e0(1,3) have "snd e0 = snd e"
    by (metis eq_key_imp_eq_value prod.collapse)
  with e0(2) show "stale now s (snd e)" by simp
next
  assume "stale now s (snd e)"
  with assms(2) show "fst e \<in> stale_keys now s cs"
    by (auto simp add: stale_keys_def)
qed

lemma room_frame:
  "client_heap (cleanup_room now room s) = client_heap s"
  "rooms (cleanup_room now room s) = rooms s"
  by (simp_all add: cleanup_room_def entries_frame)

lemma room_stale_same [simp]:
  "stale now (cleanup_room now' room s) w = stale now s w"
  by (simp add: stale_def room_frame)

lemma room_other_rooms:
  "r \<noteq> room \<Longrightarrow> room_heap (cleanup_room now room s) r = room_heap s r"
  by (simp add: cleanup_room_def entries_room_heap)

lemma room_clients_subset:
  "set (clients (room_heap (cleanup_room now room s) r)) \<subseteq> set (clients (room_heap s r))"
  by (auto simp add: cleanup_room_def entries_room_heap)

lemma room_keys_distinct:
  "distinct (map fst (clients (room_heap s r))) \<Longrightarrow>
   distinct (map fst (clients (room_heap (cleanup_room now room s) r)))"
  by (auto simp add: cleanup_room_def entries_room_heap distinct_map_filter)

lemma room_clients:
  assumes "distinct (map fst (clients (room_heap s room)))"
  shows "clients (room_heap (cleanup_room now room s) room)
           = filter (\<lambda>e. \<not> stale now s (snd e)) (clients (room_heap s room))"
proof -
  have "filter (\<lambda>e. fst e \<notin> stale_keys now s (clients (room_heap s room))) (clients (room_heap s room))
        = filter (\<lambda>e. \<not> stale now s (snd e)) (clients (room_heap s room))"
    by (rule filter_cong) (simp_all add: distinct_keys_stale [OF assms])
  then show ?thesis
    by (simp add: cleanup_room_def entries_room_heap)
qed

lemma room_extends: "extends s (cleanup_room now room s)"
  by (simp add: cleanup_room_def entries_extends)

lemma room_Close_only_stale:
  "Close code reason \<in> set (calls_since s (cleanup_room now room s) w) \<Longrightarrow> stale now s w"
  unfolding cleanup_room_def by (rule entries_Close_only_stale)

lemma room_Close_each_stale:
  "e \<in> set (clients (room_heap s room)) \<Longrightarrow> stale now s (snd e) \<Longrightarrow>
   Close 4001 ''Connection timeout'' \<in> set (calls_since s (cleanup_room now room s) (snd e))"
  unfolding cleanup_room_def by (rule entries_Close_each_stale)

lemma room_readyState:
  "\<not> stale now s w \<Longrightarrow>
   readyState (sockets (cleanup_room now room s) w) = readyState (sockets s w)"
  unfolding cleanup_room_def by (rule entries_readyState)

lemma room_clientToRoom:
  "clientToRoom (cleanup_room now room s) w =
     (if w \<in> snd ` {e \<in> set (clients (room_heap s room)). stale now s (snd e)} then None
      else clientToRoom s w)"
  unfolding cleanup_room_def by (rule entries_clientToRoom)

lemma room_leave:
  assumes "distinct (map fst (clients (room_heap s room)))"
    and "e \<in> set (clients (room_heap s room))" "stale now s (snd e)"
    and "e' \<in> set (clients (room_heap s room))" "\<not> stale now s (snd e')"
    and "readyState (sockets s (snd e')) = OPEN"
  shows "\<exists>pl. Send (PresenceFrame Leave (fst e) pl)
           \<in> set (calls_since s (cleanup_room now room s) (snd e'))"
proof -
  have "fst e' \<notin> stale_keys now s (clients (room_heap s room))"
    using distinct_keys_stale [OF assms(1,4), of now s] assms(5) by simp
  with assms show ?thesis
    unfolding cleanup_room_def by (intro entries_leave)
qed

subsection \<open>Every room of the registry\<close>

lemma cleanup_rooms_Nil [simp]: "cleanup_rooms now [] s = s"
  by (simp add: cleanup_rooms_def)

lemma cleanup_rooms_Cons [simp]:
  "cleanup_rooms now (x # rs) s = cleanup_rooms now rs (cleanup_room now (snd x) s)"
  by (simp add: cleanup_rooms_def)

lemma cleanupStalePresence_rooms:
  "cleanupStalePresence now s = cleanup_rooms now (rooms s) s"
  by (simp add: cleanupStalePresence_def cleanup_rooms_def)

lemma rooms_frame:
  "client_heap (cleanup_rooms now rs s) = client_heap s"
  "rooms (cleanup_rooms now rs s) = rooms s"
  by (induction rs arbitrary: s) (simp_all add: room_frame)

lemma rooms_stale_same [simp]:
  "stale now (cleanup_rooms now' rs s) w = stale now s w"
  by (simp add: stale_def rooms_frame)

lemma rooms_extends: "extends s (cleanup_rooms now rs s)"
proof (induction rs arbitrary: s)
  case Nil
  show ?case by (simp add: extends_refl)
next
  case (Cons x rs)
  show ?case
    using extends_trans(1) [OF room_extends Cons.IH] by simp
qed

lemma rooms_calls_since_Cons:
  "calls_since s (cleanup_rooms now (x # rs) s) w =
     calls_since s (cleanup_room now (snd x) s) w @
     calls_since (cleanup_room now (snd x) s) (cleanup_rooms now rs (cleanup_room now (snd x) s)) w"
  using extends_trans(2) [OF room_extends rooms_extends] by simp

lemma rooms_Close_only_stale:
  "Close code reason \<in> set (calls_since s (cleanup_rooms now rs s) w) \<Longrightarrow> stale now s w"
proof (induction rs arbitrary: s)
  case Nil
  then show ?case by (simp add: calls_since_refl)
next
  case (Cons x rs)
  from Cons.prems show ?case
    unfolding rooms_calls_since_Cons
    using Cons.IH [of "cleanup_room now (snd x) s"] room_Close_only_stale [of code reason s now "snd x" w]
    by auto
qed

lemma rooms_readyState:
  "\<not> stale now s w \<Longrightarrow>
   readyState (sockets (cleanup_rooms now rs s) w) = readyState (sockets s w)"
proof (induction rs arbitrary: s)
  case Nil
  show ?case by simp
next
  case (Cons x rs)
  have "\<not> stale now (cleanup_room now (snd x) s) w" using Cons.prems by simp
  from Cons.IH [OF this] Cons.prems show ?case
    by (simp add: room_readyState)
qed

lemma rooms_clientToRoom_fresh:
  "\<not> stale now s w \<Longrightarrow> clientToRoom (cleanup_rooms now rs s) w = clientToRoom s w"
proof (induction rs arbitrary: s)
  case Nil
  show ?case by simp
next
  case (Cons x rs)
  have "\<not> stale now (cleanup_room now (snd x) s) w" using Cons.prems by simp
  from Cons.IH [OF this] Cons.prems show ?case
    by (auto simp add: room_clientToRoom)
qed

lemma rooms_clientToRoom_None:
  "clientToRoom s w = None \<Longrightarrow> clientToRoom (cleanup_rooms now rs s) w = None"
proof (induction rs arbitrary: s)
  case Nil
  then show ?case by simp
next
  case (Cons x rs)
  have "clientToRoom (cleanup_room now (snd x) s) w = None"
    using Cons.prems by (simp add: room_clientToRoom)
  from Cons.IH [OF this] show ?case by simp
qed

lemma rooms_keys_distinct:
  "distinct (map fst (clients (room_heap s r))) \<Longrightarrow>
   distinct (map fst (clients (room_heap (cleanup_rooms now rs s) r)))"
  by (induction rs arbitrary: s) (simp_all add: room_keys_distinct)

lemma rooms_other_rooms:
  "r \<notin> snd ` set rs \<Longrightarrow> room_heap (cleanup_rooms now rs s) r = room_heap s r"
  by (induction rs arbitrary: s) (simp_all add: room_other_rooms)

lemma rooms_clients:
  assumes "\<forall>e \<in> set rs. distinct (map fst (clients (room_heap s (snd e))))"
    and "r \<in> snd ` set rs"
  shows "clients (room_heap (cleanup_rooms now rs s) r)
           = filter (\<lambda>e. \<not> stale now s (snd e)) (clients (room_heap s r))"
  using assms
proof (induction rs arbitrary: s)
  case Nil
  then show ?case by simp
next
  case (Cons x rs)
  let ?s1 = "cleanup_room now (snd x) s"
  have d1: "\<forall>e \<in> set rs. distinct (map fst (clients (room_heap ?s1 (snd e))))"
    using Cons.prems(1) by (simp add: room_keys_distinct)
  show ?case
  proof (cases "r \<in> snd ` set rs")
    case True
    have "clients (room_heap (cleanup_rooms now rs ?s1) r)
            = filter (\<lambda>e. \<not> stale now s (snd e)) (clients (room_heap ?s1 r))"
      using Cons.IH [OF d1 True] by simp
    also have "\<dots> = filter (\<lambda>e. \<not> stale now s (snd e)) (clients (room_heap s r))"
    proof (cases "r = snd x")
      case True
      with Cons.prems(1) have "distinct (map fst (clients (room_heap s r)))" by simp
      then show ?thesis using True by (simp add: room_clients)
    next
      case False
      then show ?thesis by (simp add: room_other_rooms)
    qed
    finally show ?thesis by simp
  next
    case False
    with Cons.prems(2) have r: "r = snd x" by auto
    with Cons.prems(1) have "distinct (map fst (clients (room_heap s r)))" by simp
    then have "clients (room_heap ?s1 r) = filter (\<lambda>e. \<not> stale now s (snd e)) (clients (room_heap s r))"
      using r by (simp add: room_clients)
    then show ?thesis using False by (simp add: rooms_other_rooms)
  qed
qed

lemma rooms_Close_each_stale:
  assumes "r \<in> snd ` set rs" "e \<in> set (clients (room_heap s r))" "stale now s (snd e)"
  shows "Close 4001 ''Connection timeout'' \<in> set (calls_since s (cleanup_rooms now rs s) (snd e))"
  using assms
proof (induction rs arbitrary: s)
  case Nil
  then show ?case by simp
next
  case (Cons x rs)
  let ?s1 = "cleanup_room now (snd x) s"
  show ?case
  proof (cases "r = snd x")
    case True
    with Cons.prems have "Close 4001 ''Connection timeout'' \<in> set (calls_since s ?s1 (snd e))"
      by (simp add: room_Close_each_stale)
    then show ?thesis unfolding rooms_calls_since_Cons by simp
  next
    case False
    with Cons.prems(1) have 1: "r \<in> snd ` set rs" by auto
    have 2: "e \<in> set (clients (room_heap ?s1 r))"
      using Cons.prems(2) False by (simp add: room_other_rooms)
    have 3: "stale now ?s1 (snd e)" using Cons.prems(3) by simp
    from Cons.IH [OF 1 2 3] show ?thesis unfolding rooms_calls_since_Cons by simp
  qed
qed

lemma rooms_clientToRoom_stale:
  assumes "r \<in> snd ` set rs" "e \<in> set (clients (room_heap s r))" "stale now s (snd e)"
  shows "clientToRoom (cleanup_rooms now rs s) (snd e) = None"
  using assms
proof (induction rs arbitrary: s)
  case Nil
  then show ?case by simp
next
  case (Cons x rs)
  let ?s1 = "cleanup_room now (snd x) s"
  show ?case
  proof (cases "r = snd x")
    case True
    with Cons.prems have "clientToRoom ?s1 (snd e) = None"
      by (auto simp add: room_clientToRoom)
    then show ?thesis by (simp add: rooms_clientToRoom_None)
  next
    case False
    with Cons.prems(1) have 1: "r \<in> snd ` set rs" by auto
    have 2: "e \<in> set (clients (room_heap ?s1 r))"
      using Cons.prems(2) False by (simp add: room_other_rooms)
    have 3: "stale now ?s1 (snd e)" using Cons.prems(3) by simp
    from Cons.IH [OF 1 2 3] show ?thesis by simp
  qed
qed

lemma rooms_leave:
  assumes "\<forall>e \<in> set rs. distinct (map fst (clients (room_heap s (snd e))))"
    and "r \<in> snd ` set rs"
    and "e \<in> set (clients (room_heap s r))" "stale now s (snd e)"
    and "e' \<in> set (clients (room_heap s r))" "\<not> stale now s (snd e')"
    and "readyState (sockets s (snd e')) = OPEN"
  shows "\<exists>pl. Send (PresenceFrame Leave (fst e) pl)
           \<in> set (calls_since s (cleanup_rooms now rs s) (snd e'))"
  using assms
proof (induction rs arbitrary: s)
  case Nil
  then show ?case by simp
next
  case (Cons x rs)
  let ?s1 = "cleanup_room now (snd x) s"
  show ?case
  proof (cases "r = snd x")
    case True
    with Cons.prems(1) have "distinct (map fst (clients (room_heap s (snd x))))" by simp
    from room_leave [OF this, of e now e'] Cons.prems(3-7) True
    obtain pl where "Send (PresenceFrame Leave (fst e) pl) \<in> set (calls_since s ?s1 (snd e'))"
      by auto
    then show ?thesis unfolding rooms_calls_since_Cons by auto
  next
    case False
    have d1: "\<forall>e \<in> set rs. distinct (map fst (clients (room_heap ?s1 (snd e))))"
      using Cons.prems(1) by (simp add: room_keys_distinct)
    from False Cons.prems(2) have 1: "r \<in> snd ` set rs" by auto
    have 2: "e \<in> set (clients (room_heap ?s1 r))" and 4: "e' \<in> set (clients (room_heap ?s1 r))"
      using Cons.prems(3,5) False by (simp_all add: room_other_rooms)
    have 3: "stale now ?s1 (snd e)" and 5: "\<not> stale now ?s1 (snd e')"
      using Cons.prems(4,6) by simp_all
    have 6: "readyState (sockets ?s1 (snd e')) = OPEN"
      using Cons.prems(6,7) by (simp add: room_readyState)
    from Cons.IH [OF d1 1 2 3 4 5 6] show ?thesis
      unfolding rooms_calls_since_Cons by auto
  qed
qed

text \<open>
  Claim C5.  The constructor arms the sweep with a period of 1000 ms.  One sweep, in a state
  whose rooms have one entry per participant id (as a JavaScript \<^verbatim>\<open>Map\<close> has), does this to
  every entry of every registered room.  If the entry's \<^verbatim>\<open>lastSeen\<close> is more than 5000 ms
  before \<open>now\<close>: \<^verbatim>\<open>close(4001, 'Connection timeout')\<close> is called on its socket, the entry is
  no longer in the room's client map, its socket is no longer in \<^verbatim>\<open>clientToRoom\<close>, and every
  entry that stays in the room and whose socket was open has been sent a \<^verbatim>\<open>leave\<close> presence
  update with the evicted participant id.  Otherwise the entry is still in the map, and its
  socket's \<^verbatim>\<open>readyState\<close>, its \<^verbatim>\<open>clientToRoom\<close> entry and its connection record are as
  before, and no \<^verbatim>\<open>close\<close> was called on its socket.  The client map of a room afterwards
  is the map before without the stale entries, in the same order.
\<close>

theorem stale_connections_evicted:
  assumes "\<forall>r \<in> set (rooms s). distinct (map fst (clients (room_heap s (snd r))))"
  shows "let s' = cleanupStalePresence now s in
     (\<forall>r \<in> set (rooms s). \<forall>e \<in> set (clients (room_heap s (snd r))).
        (stale now s (snd e) \<longrightarrow>
             Close 4001 ''Connection timeout'' \<in> set (calls_since s s' (snd e))
           \<and> e \<notin> set (clients (room_heap s' (snd r)))
           \<and> clientToRoom s' (snd e) = None
           \<and> (\<forall>e' \<in> set (clients (room_heap s' (snd r))).
                 readyState (sockets s (snd e')) = OPEN \<longrightarrow>
                 (\<exists>pl. Send (PresenceFrame Leave (fst e) pl) \<in> set (calls_since s s' (snd e')))))
      \<and> (\<not> stale now s (snd e) \<longrightarrow>
             e \<in> set (clients (room_heap s' (snd r)))
           \<and> readyState (sockets s' (snd e)) = readyState (sockets s (snd e))
           \<and> (\<forall>code reason. Close code reason \<notin> set (calls_since s s' (snd e)))
           \<and> clientToRoom s' (snd e) = clientToRoom s (snd e)
           \<and> client_heap s' (snd e) = client_heap s (snd e)))
   \<and> (\<forall>r \<in> set (rooms s). clients (room_heap s' (snd r))
          = filter (\<lambda>e. \<not> stale now s (snd e)) (clients (room_heap s (snd r))))
   \<and> (\<forall>w. calls (sockets s' w) = calls (sockets s w) @ calls_since s s' w)
   \<and> rooms s' = rooms s
   \<and> presenceCleanupInterval (startCollaborationServer lib) = Some 1000"
proof -
  let ?s' = "cleanup_rooms now (rooms s) s"
  have cl: "clients (room_heap ?s' (snd r)) = filter (\<lambda>e. \<not> stale now s (snd e)) (clients (room_heap s (snd r)))"
    if "r \<in> set (rooms s)" for r
    using that by (intro rooms_clients [OF assms]) simp
  have st: "Close 4001 ''Connection timeout'' \<in> set (calls_since s ?s' (snd e))
           \<and> e \<notin> set (clients (room_heap ?s' (snd r)))
           \<and> clientToRoom ?s' (snd e) = None
           \<and> (\<forall>e' \<in> set (clients (room_heap ?s' (snd r))).
                 readyState (sockets s (snd e')) = OPEN \<longrightarrow>
                 (\<exists>pl. Send (PresenceFrame Leave (fst e) pl) \<in> set (calls_since s ?s' (snd e'))))"
    if r: "r \<in> set (rooms s)" and e: "e \<in> set (clients (room_heap s (snd r)))"
      and stale: "stale now s (snd e)" for r e
  proof -
    from r have r': "snd r \<in> snd ` set (rooms s)" by simp
    have 1: "Close 4001 ''Connection timeout'' \<in> set (calls_since s ?s' (snd e))"
      by (rule rooms_Close_each_stale [OF r' e stale])
    have 2: "e \<notin> set (clients (room_heap ?s' (snd r)))"
      using stale by (simp add: cl [OF r])
    have 3: "clientToRoom ?s' (snd e) = None"
      by (rule rooms_clientToRoom_stale [OF r' e stale])
    have 4: "\<exists>pl. Send (PresenceFrame Leave (fst e) pl) \<in> set (calls_since s ?s' (snd e'))"
      if "e' \<in> set (clients (room_heap ?s' (snd r)))" "readyState (sockets s (snd e')) = OPEN" for e'
    proof -
      from that(1) have "e' \<in> set (clients (room_heap s (snd r)))" "\<not> stale now s (snd e')"
        by (simp_all add: cl [OF r])
      from rooms_leave [OF assms r' e stale this that(2)] show ?thesis .
    qed
    from 1 2 3 4 show ?thesis by blast
  qed
  have fr: "e \<in> set (clients (room_heap ?s' (snd r)))
           \<and> readyState (sockets ?s' (snd e)) = readyState (sockets s (snd e))
           \<and> (\<forall>code reason. Close code reason \<notin> set (calls_since s ?s' (snd e)))
           \<and> clientToRoom ?s' (snd e) = clientToRoom s (snd e)
           \<and> client_heap ?s' (snd e) = client_heap s (snd e)"
    if r: "r \<in> set (rooms s)" and e: "e \<in> set (clients (room_heap s (snd r)))"
      and fresh: "\<not> stale now s (snd e)" for r e
  proof -
    have 1: "e \<in> set (clients (room_heap ?s' (snd r)))"
      using e fresh by (simp add: cl [OF r])
    have 2: "readyState (sockets ?s' (snd e)) = readyState (sockets s (snd e))"
      by (rule rooms_readyState [OF fresh])
    have 3: "Close code reason \<notin> set (calls_since s ?s' (snd e))" for code reason
      using rooms_Close_only_stale [of code reason s now "rooms s" "snd e"] fresh by blast
    have 4: "clientToRoom ?s' (snd e) = clientToRoom s (snd e)"
      by (rule rooms_clientToRoom_fresh [OF fresh])
    have 5: "client_heap ?s' (snd e) = client_heap s (snd e)"
      by (simp add: rooms_frame)
    from 1 2 3 4 5 show ?thesis by blast
  qed
  have ex: "calls (sockets ?s' w) = calls (sockets s w) @ calls_since s ?s' w" for w
    using rooms_extends [of s now "rooms s"] unfolding extends_def by blast
  have rm: "rooms ?s' = rooms s" by (rule rooms_frame)
  have iv: "presenceCleanupInterval (startCollaborationServer lib) = Some 1000"
    by (simp add: startCollaborationServer_def)
  from cl st fr ex rm iv show ?thesis
    unfolding Let_def cleanupStalePresence_rooms by blast
qed

theorem stale_connections_evicted_witness:
  "rooms both_joined = [(''doc1'', 0)]
   \<and> distinct (map fst (clients (room_heap both_joined 0)))
   \<and> stale 5015 both_joined 0 \<and> \<not> stale 5015 both_joined 1
   \<and> Close 4001 ''Connection timeout''
        \<in> set (calls_since both_joined (cleanupStalePresence 5015 both_joined) 0)
   \<and> clients (room_heap (cleanupStalePresence 5015 both_joined) 0) = [(''bob'', 1)]
   \<and> (\<exists>pl. Send (PresenceFrame Leave ''alice'' pl)
        \<in> set (calls_since both_joined (cleanupStalePresence 5015 both_joined) 1))
   \<and> readyState (sockets (cleanupStalePresence 5015 both_joined) 1) = OPEN"
proof -
  have r: "rooms both_joined = [(''doc1'', 0)]"
    and c: "clients (room_heap both_joined 0) = [(''alice'', 0), (''bob'', Suc 0)]"
    and l: "lastSeen (client_heap both_joined 0) = 10" "lastSeen (client_heap both_joined (Suc 0)) = 20"
    and o: "readyState (sockets both_joined (Suc 0)) = OPEN"
    by (simp_all add: both_joined_eq)
  have h: "\<forall>r \<in> set (rooms both_joined). distinct (map fst (clients (room_heap both_joined (snd r))))"
    by (simp add: r c)
  have s: "stale 5015 both_joined 0" "\<not> stale 5015 both_joined (Suc 0)"
    by (simp_all add: stale_def l PRESENCE_TIMEOUT_def)
  from stale_connections_evicted [OF h, of 5015 gset_lib] s
  show ?thesis
    by (auto simp add: Let_def r c o)
qed

end
